theory Spec2Isabelle
  imports Main "HOL-Library.AList"
begin

section \<open>JavaScript values\<close>

text \<open>
  The values that reach the functions below as identifiers and text: \<open>undefined\<close>,
  \<open>null\<close>, booleans and strings (every identifier of the application is a TEXT
  column, an opaque string). A value of any other kind (a number, an object) is
  \<open>Other t s\<close>, known by the two things the code asks of it: whether it is truthy,
  and the text \<open>String()\<close> makes of it. \<open>truthy\<close> is the test behind \<open>!v\<close>,
  \<open>v || d\<close> and \<open>if (v)\<close>; \<open>js_String\<close> is the conversion \<open>String(v)\<close>, also
  behind template literals and string concatenation.
\<close>

datatype jsval = Undefined | Null | Boolean bool | String string | Other bool string

fun truthy :: "jsval \<Rightarrow> bool" where
  "truthy Undefined = False"
| "truthy Null = False"
| "truthy (Boolean b) = b"
| "truthy (String s) = (s \<noteq> [])"
| "truthy (Other t s) = t"

fun js_String :: "jsval \<Rightarrow> string" where
  "js_String Undefined = ''undefined''"
| "js_String Null = ''null''"
| "js_String (Boolean b) = (if b then ''true'' else ''false'')"
| "js_String (String s) = s"
| "js_String (Other t s) = s"

definition js_or :: "jsval \<Rightarrow> jsval \<Rightarrow> jsval" where
  \<comment> \<open>\<open>a || b\<close>\<close>
  "js_or a b = (if truthy a then a else b)"

section \<open>escapeHtml\<close>

text \<open>
  \<^verbatim>\<open>
  function escapeHtml(s) {
    return String(s || '').replace(/[&<>"]+/g,
      c => ({'&':'&amp;','<':'&lt;','>':'&gt;','"':'&quot;'}[c]));
  }
  \<close>
  The character class carries a \<open>+\<close>: one match is a maximal run of special characters,
  and the callback looks the whole run up in the table. A run of one character finds its
  entity; a longer run finds nothing, the callback returns \<open>undefined\<close>, and \<open>replace\<close>
  inserts the text \<open>undefined\<close>.
\<close>

definition special :: "char \<Rightarrow> bool" where
  "special c = (c = CHR ''&'' \<or> c = CHR ''<'' \<or> c = CHR ''>'' \<or> c = CHR 0x22)"

definition entity :: "string \<Rightarrow> jsval" where
  \<comment> \<open>the property lookup \<open>{...}[c]\<close> on the matched text\<close>
  "entity run =
     (if run = ''&'' then String ''&amp;''
      else if run = ''<'' then String ''&lt;''
      else if run = ''>'' then String ''&gt;''
      else if run = [CHR 0x22] then String ''&quot;''
      else Undefined)"

function replace_special :: "string \<Rightarrow> string" where
  "replace_special [] = []"
| "replace_special (c # cs) =
     (if special c
      then js_String (entity (takeWhile special (c # cs)))
           @ replace_special (dropWhile special (c # cs))
      else c # replace_special cs)"
  by pat_completeness auto
termination
  by (relation "measure length") (auto simp: le_imp_less_Suc length_dropWhile_le)

definition escapeHtml :: "jsval \<Rightarrow> string" where
  "escapeHtml s = replace_special (js_String (js_or s (String [])))"

section \<open>DOM elements\<close>

text \<open>
  An element as far as the card factory uses it: its class list (\<open>classList\<close>, an ordered
  set of tokens) and its attributes (\<open>setAttribute\<close> overwrites an attribute in place
  or appends it).
\<close>

record element =
  classList :: "string list"
  attributes :: "(string \<times> string) list"

definition createElement :: element where
  "createElement = \<lparr>classList = [], attributes = []\<rparr>"

definition set_className :: "string \<Rightarrow> element \<Rightarrow> element" where
  \<comment> \<open>\<open>el.className = c\<close> for a single class name \<open>c\<close>\<close>
  "set_className c e = e\<lparr>classList := [c]\<rparr>"

definition classList_add :: "string \<Rightarrow> element \<Rightarrow> element" where
  "classList_add c e = (if c \<in> set (classList e) then e else e\<lparr>classList := classList e @ [c]\<rparr>)"

definition classList_remove :: "string \<Rightarrow> element \<Rightarrow> element" where
  "classList_remove c e = e\<lparr>classList := removeAll c (classList e)\<rparr>"

definition classList_contains :: "string \<Rightarrow> element \<Rightarrow> bool" where
  "classList_contains c e = (c \<in> set (classList e))"

definition setAttribute :: "string \<Rightarrow> string \<Rightarrow> element \<Rightarrow> element" where
  "setAttribute k v e = e\<lparr>attributes := AList.update k v (attributes e)\<rparr>"

definition getAttribute :: "string \<Rightarrow> element \<Rightarrow> string option" where
  "getAttribute k e = map_of (attributes e) k"

section \<open>The card factory\<close>

text \<open>
  A card is its root element and the three regions that \<open>root.querySelector\<close> finds by
  class (\<open>.card-header\<close>, \<open>.card-body\<close>, \<open>.card-footer\<close>); a region is \<open>None\<close>
  when the query returns \<open>null\<close>, which the code guards against (\<open>if (header)\<close>).
\<close>

record card =
  root :: element
  header :: "element option"
  body :: "element option"
  footer :: "element option"

definition is_expanded :: "card \<Rightarrow> bool" where
  \<comment> \<open>\<open>root.classList.contains('expanded')\<close>\<close>
  "is_expanded c = classList_contains ''expanded'' (root c)"

definition aria_expanded :: "card \<Rightarrow> string option" where
  \<comment> \<open>the header's \<open>aria-expanded\<close> attribute\<close>
  "aria_expanded c = (case header c of None \<Rightarrow> None | Some h \<Rightarrow> getAttribute ''aria-expanded'' h)"

text \<open>
  \<^verbatim>\<open>
  function toggleExpanded(root, expanded) {
      const header = root.querySelector('.card-header');
      ...
      if (expanded) {
          root.classList.add('expanded');
          // if (header) header.setAttribute('aria-expanded', 'true');
      } else {
          root.classList.remove('expanded');
          if (header) header.setAttribute('aria-expanded', 'false');
      }
  }
  \<close>
\<close>

definition toggleExpanded :: "card \<Rightarrow> bool \<Rightarrow> card" where
  "toggleExpanded c expanded =
     (if expanded then c\<lparr>root := classList_add ''expanded'' (root c)\<rparr>
      else (let c1 = c\<lparr>root := classList_remove ''expanded'' (root c)\<rparr>
            in case header c1 of
                 None \<Rightarrow> c1
               | Some h \<Rightarrow> c1\<lparr>header := Some (setAttribute ''aria-expanded'' ''false'' h)\<rparr>))"

text \<open>
  A lifecycle hook is caller code, called as \<open>hook(id, root)\<close>. It may change the card
  it is handed and the rest of the page (\<open>'w\<close>: whatever the caller's closures reach),
  and it is taken to return normally. A configuration field holds \<open>None\<close> when
  \<open>typeof f === 'function'\<close> is false. Every invocation is recorded with its arguments,
  the root as it is at the moment of the call.
\<close>

type_synonym 'w hook = "jsval \<Rightarrow> card \<Rightarrow> 'w \<Rightarrow> card \<times> 'w"

record 'w config =
  card_id :: jsval
  onInit :: "'w hook option"
  onExpand :: "'w hook option"
  onCollapse :: "'w hook option"
  initiallyExpanded :: jsval

definition no_config :: "'w config" where
  \<comment> \<open>the parameter's default \<open>= {}\<close>: \<open>makeCard()\<close>\<close>
  "no_config = \<lparr>card_id = Undefined, onInit = None, onExpand = None, onCollapse = None,
                 initiallyExpanded = Undefined\<rparr>"

datatype hook_name = OnInit | OnExpand | OnCollapse

record call =
  hook :: hook_name
  arg_id :: jsval
  arg_root :: card

record 'w st =
  node :: card
  didInit :: bool
  page :: "'w"
  calls :: "call list"

text \<open>
  What a function throws: \<open>new Error(message)\<close>, and the two errors the runtime itself
  raises below (\<open>fetch\<close> failing and a property read on \<open>null\<close> are TypeErrors,
  \<open>res.json()\<close> on a body that is not JSON is a SyntaxError).
\<close>

datatype error = Error string | TypeError | SyntaxError

definition call_hook :: "hook_name \<Rightarrow> 'w hook option \<Rightarrow> jsval \<Rightarrow> 'w st \<Rightarrow> 'w st" where
  \<comment> \<open>\<open>if (typeof f === 'function') f(id, root);\<close>\<close>
  "call_hook nm f i s =
     (case f of
        None \<Rightarrow> s
      | Some h \<Rightarrow>
          (case h i (node s) (page s) of
             (c', w') \<Rightarrow>
               s\<lparr>node := c', page := w',
                 calls := calls s @ [\<lparr>hook = nm, arg_id = i, arg_root = node s\<rparr>]\<rparr>))"

definition doExpand :: "'w config \<Rightarrow> 'w st \<Rightarrow> 'w st" where
  "doExpand cfg s =
     call_hook OnExpand (onExpand cfg) (card_id cfg) (s\<lparr>node := toggleExpanded (node s) True\<rparr>)"

definition doCollapse :: "'w config \<Rightarrow> 'w st \<Rightarrow> 'w st" where
  "doCollapse cfg s =
     call_hook OnCollapse (onCollapse cfg) (card_id cfg) (s\<lparr>node := toggleExpanded (node s) False\<rparr>)"

definition onToggle :: "'w config \<Rightarrow> 'w st \<Rightarrow> 'w st" where
  "onToggle cfg s =
     (let isNowExpanded = \<not> classList_contains ''expanded'' (root (node s))
      in if isNowExpanded then doExpand cfg s else doCollapse cfg s)"

text \<open>
  The two listeners of the header: \<open>click\<close> runs \<open>onToggle\<close>; \<open>keydown\<close> runs it for
  the keys \<open>Enter\<close> and space only.
\<close>

datatype header_event = Click | Keydown string

fun header_listener :: "'w config \<Rightarrow> header_event \<Rightarrow> 'w st \<Rightarrow> 'w st" where
  "header_listener cfg Click s = onToggle cfg s"
| "header_listener cfg (Keydown k) s = (if k = ''Enter'' \<or> k = '' '' then onToggle cfg s else s)"

fun header_events :: "'w config \<Rightarrow> header_event list \<Rightarrow> 'w st \<Rightarrow> 'w st" where
  "header_events cfg [] s = s"
| "header_events cfg (e # es) s = header_events cfg es (header_listener cfg e s)"

fun toggles :: "header_event \<Rightarrow> bool" where
  "toggles Click = True"
| "toggles (Keydown k) = (k = ''Enter'' \<or> k = '' '')"

definition default_false :: "jsval \<Rightarrow> jsval" where
  \<comment> \<open>the destructuring default \<open>initiallyExpanded = false\<close>\<close>
  "default_false v = (if v = Undefined then Boolean False else v)"

definition new_card :: "jsval \<Rightarrow> card" where
  \<comment> \<open>the elements \<open>makeCard\<close> creates and composes, before any hook runs\<close>
  "new_card i =
     \<lparr>root = setAttribute ''data-card-id'' (js_String i) (set_className ''card'' createElement),
      header = Some (setAttribute ''tabindex'' ''0''
                 (setAttribute ''aria-expanded'' ''false''
                   (setAttribute ''role'' ''button'' (set_className ''card-header'' createElement)))),
      body = Some (set_className ''card-body'' createElement),
      footer = Some (set_className ''card-footer'' createElement)\<rparr>"

definition makeCard :: "'w config \<Rightarrow> 'w \<Rightarrow> error + 'w st" where
  "makeCard cfg w =
     (if \<not> truthy (card_id cfg) then Inl (Error ''makeCard: `id` is required'')
      else
        (let s0 = \<lparr>node = new_card (card_id cfg), didInit = False, page = w, calls = []\<rparr>;
             s1 = (if \<not> didInit s0
                   then call_hook OnInit (onInit cfg) (card_id cfg) (s0\<lparr>didInit := True\<rparr>)
                   else s0);
             s2 = (if truthy (default_false (initiallyExpanded cfg)) then doExpand cfg s1
                   else s1\<lparr>node := toggleExpanded (node s1) False\<rparr>)
         in Inr s2))"

section \<open>The page controller: records, network, alerts\<close>

text \<open>
  Jobs and candidates are the objects of the list endpoints; their fields are whatever
  JSON the server sent, read with \<open>job.id\<close>, \<open>job.job_title\<close> and so on.
\<close>

record job =
  j_id :: jsval
  job_title :: jsval
  company_name :: jsval
  job_description :: jsval

record candidate =
  c_id :: jsval
  candidate_name :: jsval
  candidate_cv_id :: jsval

text \<open>
  A response, as far as the controller looks at it. \<open>fetch\<close> either throws
  (\<open>Network_error\<close>) or resolves to a response with its \<open>ok\<close> flag and a body;
  \<open>res.json()\<close> rejects on \<open>Invalid_json\<close>, resolves to \<open>null\<close> on \<open>Json_null\<close>,
  and otherwise to a value of which the code reads the properties \<open>jobs\<close> and
  \<open>candidates\<close> (\<open>None\<close> when absent or falsy), \<open>content\<close>, \<open>job_id\<close> and
  \<open>document_id\<close> (\<open>Undefined\<close> when absent).
\<close>

record obj =
  jobs :: "job list option"
  candidates :: "candidate list option"
  content :: jsval
  job_id :: jsval
  document_id :: jsval

definition no_properties :: obj where
  \<comment> \<open>a body with none of these properties, such as \<open>{}\<close> or \<open>{"detail": ...}\<close>\<close>
  "no_properties = \<lparr>jobs = None, candidates = None, content = Undefined, job_id = Undefined,
                     document_id = Undefined\<rparr>"

datatype json = Invalid_json | Json_null | Json_obj obj

datatype response = Network_error | Response bool json

record request =
  meth :: string
  url :: string
  sent :: "(string \<times> string) list"

text \<open>
  The environment of every handler: the requests issued so far, the server (its reply
  to the n-th request of the session), and the alerts shown so far. An \<open>async\<close>
  function is run to its end in one step; it returns \<open>Inl e\<close> when its promise rejects
  with \<open>e\<close>.
\<close>

record io =
  requests :: "request list"
  server :: "nat \<Rightarrow> response"
  alerts :: "string list"

definition API_BASE :: string where
  "API_BASE = ''http://localhost:8000''"

definition fetch :: "request \<Rightarrow> 'a io_scheme \<Rightarrow> response \<times> 'a io_scheme" where
  "fetch r w = (server w (length (requests w)), w\<lparr>requests := requests w @ [r]\<rparr>)"

definition alert :: "string \<Rightarrow> 'a io_scheme \<Rightarrow> 'a io_scheme" where
  "alert m w = w\<lparr>alerts := alerts w @ [m]\<rparr>"

definition textContent_of :: "jsval \<Rightarrow> string" where
  \<comment> \<open>the text an element holds after \<open>el.textContent = v\<close>: \<open>null\<close> and \<open>undefined\<close> clear it\<close>
  "textContent_of v = (if v = Null \<or> v = Undefined then [] else js_String v)"

text \<open>
  \<^verbatim>\<open>
  async function fetchJobs() {
    const res = await fetch(`${API_BASE}/jobs`);
    const data = await res.json();
    return data.jobs || [];
  }
  \<close>
\<close>

definition fetchJobs :: "'a io_scheme \<Rightarrow> (error + job list) \<times> 'a io_scheme" where
  "fetchJobs w =
     (case fetch \<lparr>meth = ''GET'', url = API_BASE @ ''/jobs'', sent = []\<rparr> w of
        (res, w1) \<Rightarrow>
          (case res of
             Network_error \<Rightarrow> (Inl TypeError, w1)
           | Response ok b \<Rightarrow>
               (case b of
                  Invalid_json \<Rightarrow> (Inl SyntaxError, w1)
                | Json_null \<Rightarrow> (Inl TypeError, w1)
                | Json_obj data \<Rightarrow>
                    (Inr (case jobs data of None \<Rightarrow> [] | Some js \<Rightarrow> js), w1))))"

text \<open>
  \<^verbatim>\<open>
  async function fetchCandidates() {
    const res = await fetch(`${API_BASE}/candidates`);
    const data = await res.json();
    return data.candidates || [];
  }
  async function fetchDocument(id) {
    const res = await fetch(`${API_BASE}/documents/${id}`);
    if (!res.ok) return null;
    return await res.json();
  }
  \<close>
  \<open>fetchDocument\<close> resolves to \<open>None\<close> for \<open>null\<close>.
\<close>

definition fetchCandidates :: "'a io_scheme \<Rightarrow> (error + candidate list) \<times> 'a io_scheme" where
  "fetchCandidates w =
     (case fetch \<lparr>meth = ''GET'', url = API_BASE @ ''/candidates'', sent = []\<rparr> w of
        (res, w1) \<Rightarrow>
          (case res of
             Network_error \<Rightarrow> (Inl TypeError, w1)
           | Response ok b \<Rightarrow>
               (case b of
                  Invalid_json \<Rightarrow> (Inl SyntaxError, w1)
                | Json_null \<Rightarrow> (Inl TypeError, w1)
                | Json_obj data \<Rightarrow>
                    (Inr (case candidates data of None \<Rightarrow> [] | Some cs \<Rightarrow> cs), w1))))"


section \<open>The search page's job selector\<close>

text \<open>
  A \<open>select\<close> element: its options (value and text), the index of the selected one, and
  whether it is a list box (\<open>multiple\<close>) rather than a drop-down. \<open>select.value\<close> reads
  the selected option's value, or the empty string; assigning it selects the first
  option with that value, or none. A drop-down with nothing selected selects its first
  option when an option is inserted.
\<close>

record select =
  options :: "(string \<times> string) list"
  selectedIndex :: "nat option"
  multiple :: bool

definition select_value :: "select \<Rightarrow> string" where
  "select_value sel =
     (case selectedIndex sel of
        None \<Rightarrow> []
      | Some i \<Rightarrow> if i < length (options sel) then fst (options sel ! i) else [])"

fun index_of :: "string \<Rightarrow> (string \<times> string) list \<Rightarrow> nat option" where
  "index_of v [] = None"
| "index_of v (x # xs) = (if fst x = v then Some 0 else map_option Suc (index_of v xs))"

definition set_select_value :: "string \<Rightarrow> select \<Rightarrow> select" where
  "set_select_value v sel = sel\<lparr>selectedIndex := index_of v (options sel)\<rparr>"

definition clear_options :: "select \<Rightarrow> select" where
  \<comment> \<open>\<open>select.innerHTML = ''\<close>\<close>
  "clear_options sel = sel\<lparr>options := [], selectedIndex := None\<rparr>"

definition appendChild_option :: "select \<Rightarrow> string \<times> string \<Rightarrow> select" where
  "appendChild_option sel opt =
     (let sel1 = sel\<lparr>options := options sel @ [opt]\<rparr>
      in if \<not> multiple sel \<and> selectedIndex sel = None then sel1\<lparr>selectedIndex := Some 0\<rparr>
         else sel1)"

record jobs_ui = io +
  searchSelect :: select
  searchInfo :: string

definition updateSearchInfo :: "job option \<Rightarrow> 'a jobs_ui_scheme \<Rightarrow> 'a jobs_ui_scheme" where
  "updateSearchInfo jo w =
     (case jo of
        None \<Rightarrow> w\<lparr>searchInfo := ''No job selected.''\<rparr>
      | Some j \<Rightarrow>
          w\<lparr>searchInfo := ''Selected: '' @ js_String (job_title j)
               @ (if truthy (company_name j) then '' @ '' @ js_String (company_name j) else [])\<rparr>)"

definition option_of :: "job \<Rightarrow> string \<times> string" where
  \<comment> \<open>the option built for a job; the separator is an em dash between spaces, in UTF-8\<close>
  "option_of j =
     (js_String (j_id j),
      js_String (job_title j)
      @ (if truthy (company_name j)
         then [CHR 0x20, CHR 0xE2, CHR 0x80, CHR 0x94, CHR 0x20] @ js_String (company_name j)
         else []))"

text \<open>
  \<^verbatim>\<open>
  async function ensureSearchJobs() {
    const jobs = await fetchJobs();
    const curr = searchSelect.value;
    searchSelect.innerHTML = '';
    jobs.forEach(j => { ... opt.value = j.id; opt.textContent = ...; searchSelect.appendChild(opt); });
    if (jobs.length && !searchSelect.value) searchSelect.value = jobs[0].id;
    if (curr && [...searchSelect.options].some(o => o.value === curr)) searchSelect.value = curr;
    const sel = jobs.find(j => j.id === searchSelect.value);
    updateSearchInfo(sel);
  }
  \<close>
\<close>

definition rebuild_select :: "job list \<Rightarrow> select \<Rightarrow> select" where
  \<comment> \<open>the lines of \<open>ensureSearchJobs\<close> between the fetch and the \<open>find\<close>\<close>
  "rebuild_select js sel0 =
     (let curr = select_value sel0;
          sel1 = foldl appendChild_option (clear_options sel0) (map option_of js);
          sel2 = (case js of
                    [] \<Rightarrow> sel1
                  | j # _ \<Rightarrow> if select_value sel1 = [] then set_select_value (js_String (j_id j)) sel1
                            else sel1);
          sel3 = (if curr \<noteq> [] \<and> list_ex (\<lambda>x. fst x = curr) (options sel2)
                  then set_select_value curr sel2 else sel2)
      in sel3)"

definition ensureSearchJobs :: "'a jobs_ui_scheme \<Rightarrow> (error + unit) \<times> 'a jobs_ui_scheme" where
  "ensureSearchJobs w =
     (case fetchJobs w of
        (Inl e, w1) \<Rightarrow> (Inl e, w1)
      | (Inr js, w1) \<Rightarrow>
          (let w2 = w1\<lparr>searchSelect := rebuild_select js (searchSelect w1)\<rparr>;
               sel = find (\<lambda>j. j_id j = String (select_value (searchSelect w2))) js
           in (Inr (), updateSearchInfo sel w2)))"


section \<open>What the browser decides\<close>

text \<open>
  Two things the controller leaves to the browser are parameters of the model.
  The parser: the text that escaped markup becomes as the content of an element, as the
  \<open>value\<close> attribute of a text input, and as the content of a \<open>textarea\<close> (three
  contexts with rules of their own). The selector engine: what \<open>root.querySelector\<close>
  does with a selector built from an identifier. It throws a SyntaxError when the
  selector is not valid, returns \<open>null\<close>, or returns an element, of which the model
  keeps whether the CV display region lies inside it.
\<close>

datatype selected = Invalid_selector | No_element | Element bool

record browser =
  text_of :: "string \<Rightarrow> string"
  value_of :: "string \<Rightarrow> string"
  textarea_of :: "string \<Rightarrow> string"
  root_query :: "string \<Rightarrow> selected"

section \<open>Job cards\<close>

text \<open>
  What a job card shows once \<open>onInit\<close> has filled it: the header's title and subtitle,
  the three fields of the body with their \<open>disabled\<close> flags, and the text of the Edit
  button. The card keeps the job object it was built from. \<open>view\<close> is \<open>None\<close> when
  \<open>onInit\<close> returned before filling the card.
\<close>

record input =
  input_value :: string
  disabled :: bool

record job_view =
  card_title :: string
  card_subtitle :: string
  titleInput :: input
  companyInput :: input
  desc :: input
  btnEdit :: string

record job_ui =
  job :: job
  view :: "job_view option"

text \<open>
  \<open>onInit\<close> of a job card writes markup into the three regions, every text passed
  through \<open>escapeHtml\<close>: the title and the company as element content and as
  \<open>value\<close> attributes, the description as the content of a \<open>textarea\<close>.
\<close>

definition job_onInit :: "browser \<Rightarrow> job_ui hook" where
  "job_onInit b i c u =
     (if header c = None \<or> body c = None \<or> footer c = None then (c, u)
      else
        (c, u\<lparr>view := Some
              \<lparr>card_title = text_of b (escapeHtml (job_title (job u))),
               card_subtitle = text_of b (escapeHtml (js_or (company_name (job u)) (String []))),
               titleInput = \<lparr>input_value = value_of b (escapeHtml (job_title (job u))),
                             disabled = True\<rparr>,
               companyInput = \<lparr>input_value =
                                  value_of b (escapeHtml (js_or (company_name (job u)) (String []))),
                               disabled = True\<rparr>,
               desc = \<lparr>input_value =
                         textarea_of b (escapeHtml (js_or (job_description (job u)) (String []))),
                       disabled = True\<rparr>,
               btnEdit = ''Edit''\<rparr>\<rparr>))"

definition job_config :: "browser \<Rightarrow> job \<Rightarrow> job_ui config" where
  "job_config b j =
     \<lparr>card_id = j_id j, onInit = Some (job_onInit b),
      onExpand = Some (\<lambda>i c u. (c, u)), onCollapse = Some (\<lambda>i c u. (c, u)),
      initiallyExpanded = Undefined\<rparr>"


text \<open>
  The click listener of the Edit button.
  \<^verbatim>\<open>
  const entering = titleInput.disabled;
  [titleInput, companyInput, desc].forEach(i => i.disabled = !entering ? true : false);
  btnEdit.textContent = entering ? 'Save' : 'Edit';
  if (!entering) {
    try {
      const res = await fetch(`${API_BASE}/jobs/${job.id}`, { method:'PATCH', ... });
      if(!res.ok) throw new Error();
      job.job_title = titleInput.value; job.company_name = companyInput.value;
      job.job_description = desc.value;
      header.querySelector('.card-title').textContent = job.job_title;
      header.querySelector('.card-subtitle').textContent = job.company_name || '';
    } catch { alert('Failed to save job'); }
  }
  \<close>
\<close>

definition set_disabled :: "bool \<Rightarrow> input \<Rightarrow> input" where
  "set_disabled b i = i\<lparr>disabled := b\<rparr>"

definition btnEdit_click :: "job_ui \<Rightarrow> 'a io_scheme \<Rightarrow> job_ui \<times> 'a io_scheme" where
  "btnEdit_click u w =
     (case view u of
        None \<Rightarrow> (u, w)
      | Some v \<Rightarrow>
          (let entering = disabled (titleInput v);
               flag = (if \<not> entering then True else False);
               v1 = v\<lparr>titleInput := set_disabled flag (titleInput v),
                      companyInput := set_disabled flag (companyInput v),
                      desc := set_disabled flag (desc v),
                      btnEdit := (if entering then ''Save'' else ''Edit'')\<rparr>
           in if \<not> entering
              then
                (case fetch \<lparr>meth = ''PATCH'',
                             url = API_BASE @ ''/jobs/'' @ js_String (j_id (job u)),
                             sent = [(''job_title'', input_value (titleInput v1)),
                                     (''company_name'', input_value (companyInput v1)),
                                     (''job_description'', input_value (desc v1))]\<rparr> w of
                   (res, w1) \<Rightarrow>
                     (case res of
                        Network_error \<Rightarrow> (u\<lparr>view := Some v1\<rparr>, alert ''Failed to save job'' w1)
                      | Response ok b \<Rightarrow>
                          if \<not> ok then (u\<lparr>view := Some v1\<rparr>, alert ''Failed to save job'' w1)
                          else
                            (let j1 = (job u)\<lparr>job_title := String (input_value (titleInput v1)),
                                               company_name := String (input_value (companyInput v1)),
                                               job_description := String (input_value (desc v1))\<rparr>
                             in (\<lparr>job = j1,
                                  view = Some (v1\<lparr>card_title := textContent_of (job_title j1),
                                                   card_subtitle := textContent_of
                                                     (js_or (company_name j1) (String []))\<rparr>)\<rparr>,
                                 w1))))
              else (u\<lparr>view := Some v1\<rparr>, w)))"

section \<open>The jobs list\<close>





section \<open>Candidate cards and the CV viewer\<close>

text \<open>
  What a candidate card holds of its own: the candidate object, what \<open>onInit\<close> has
  filled in (the title of the header, the name field and the text of the Edit button;
  \<open>None\<close> when \<open>onInit\<close> returned early), the text of the CV display region (the
  \<open>pre\<close> element marked \<open>data-f-cv\<close>, \<open>None\<close> while there is no such element), the
  nested CV card with the record of its hook calls, and the rejections of the card's
  \<open>async\<close> hooks, which nothing handles. A handler of the card runs on this and on
  the environment \<open>env\<close> of the page.
\<close>

record cand_view =
  cand_title :: string
  nameInput :: input
  cand_btnEdit :: string

record cand_ui =
  cand :: candidate
  cview :: "cand_view option"
  pre :: "string option"
  nested :: "card option"
  nested_calls :: "call list"
  unhandled :: "error list"

record 'e cand_page =
  env :: "'e"
  ui :: cand_ui

definition set_pre :: "string \<Rightarrow> 'e cand_page \<Rightarrow> 'e cand_page" where
  \<comment> \<open>\<open>pre.textContent = t\<close>\<close>
  "set_pre t w = w\<lparr>ui := (ui w)\<lparr>pre := Some t\<rparr>\<rparr>"

text \<open>
  The request both expand hooks make, with what each outcome writes into the region:
  \<^verbatim>\<open>
  try { const res = await fetch(`${API_BASE}/documents/${c.candidate_cv_id}`);
        if(res.ok){ const doc = await res.json();
                    pre.textContent = doc ? doc.content : '(No CV)'; }
        else pre.textContent='(No CV)'; }
  catch { pre.textContent='(No CV)'; }
  \<close>
\<close>

definition fetch_cv :: "'a io_scheme cand_page \<Rightarrow> 'a io_scheme cand_page" where
  "fetch_cv w =
     (case fetch \<lparr>meth = ''GET'',
                  url = API_BASE @ ''/documents/'' @ js_String (candidate_cv_id (cand (ui w))),
                  sent = []\<rparr> (env w) of
        (res, e1) \<Rightarrow>
          (case res of
             Network_error \<Rightarrow> set_pre ''(No CV)'' (w\<lparr>env := e1\<rparr>)
           | Response ok rb \<Rightarrow>
               if ok
               then (case rb of
                       Invalid_json \<Rightarrow> set_pre ''(No CV)'' (w\<lparr>env := e1\<rparr>)
                     | Json_null \<Rightarrow> set_pre ''(No CV)'' (w\<lparr>env := e1\<rparr>)
                     | Json_obj doc \<Rightarrow> set_pre (textContent_of (content doc)) (w\<lparr>env := e1\<rparr>))
               else set_pre ''(No CV)'' (w\<lparr>env := e1\<rparr>)))"

text \<open>
  \<open>onExpand\<close> of the nested CV card:
  \<^verbatim>\<open>
  const pre = nestedMount.querySelector('[data-f-cv]');
  if(!pre || pre.textContent) return;
  if (c.candidate_cv_id) { try { ... } catch { ... } } else { pre.textContent='(No CV)'; }
  \<close>
\<close>

definition cv_onExpand :: "'a io_scheme cand_page hook" where
  "cv_onExpand i c w =
     (case pre (ui w) of
        None \<Rightarrow> (c, w)
      | Some t \<Rightarrow>
          if t \<noteq> [] then (c, w)
          else if truthy (candidate_cv_id (cand (ui w))) then (c, fetch_cv w)
          else (c, set_pre ''(No CV)'' w))"

text \<open>
  \<open>onExpand\<close> of the candidate card:
  \<^verbatim>\<open>
  if (c.candidate_cv_id) {
    const nested = root?.querySelector(`[data-card-id="${c.id}-cv"]`) || root;
    const preEl = nested?.querySelector('[data-f-cv]');
    if(preEl && !preEl.textContent) { try { ... } catch { ... } }
  }
  \<close>
  The first query is made with a selector built from the candidate's identifier, outside
  the \<open>try\<close>: when the selector is not valid the hook's promise rejects with the
  SyntaxError and nothing else happens. When the query finds nothing, the region is
  looked for under the root; when it finds an element, under that element.
\<close>

definition cv_selector :: "jsval \<Rightarrow> string" where
  \<comment> \<open>\<open>`[data-card-id="${c.id}-cv"]`\<close>\<close>
  "cv_selector cid = ''[data-card-id='' @ [CHR 0x22] @ js_String cid @ ''-cv'' @ [CHR 0x22] @ '']''"

definition reaches_region :: "selected \<Rightarrow> bool" where
  \<comment> \<open>whether \<open>preEl\<close> is the display region after the query gave this result\<close>
  "reaches_region q =
     (case q of Invalid_selector \<Rightarrow> False | No_element \<Rightarrow> True | Element inside \<Rightarrow> inside)"

definition cand_onExpand :: "browser \<Rightarrow> 'a io_scheme cand_page hook" where
  "cand_onExpand b i c w =
     (if truthy (candidate_cv_id (cand (ui w)))
      then (case root_query b (cv_selector (c_id (cand (ui w)))) of
              Invalid_selector \<Rightarrow> (c, w\<lparr>ui := (ui w)\<lparr>unhandled := unhandled (ui w) @ [SyntaxError]\<rparr>\<rparr>)
            | No_element \<Rightarrow>
                (case pre (ui w) of
                   None \<Rightarrow> (c, w)
                 | Some t \<Rightarrow> if t = [] then (c, fetch_cv w) else (c, w))
            | Element inside \<Rightarrow>
                (case (if inside then pre (ui w) else None) of
                   None \<Rightarrow> (c, w)
                 | Some t \<Rightarrow> if t = [] then (c, fetch_cv w) else (c, w)))
      else (c, w))"

definition cv_onInit :: "'e cand_page hook" where
  \<comment> \<open>\<open>if(b2) b2.innerHTML = `<pre data-f-cv ...></pre>`\<close>: the region starts empty\<close>
  "cv_onInit i c w = (c, (if body c = None then w else set_pre [] w))"

definition cv_config :: "jsval \<Rightarrow> 'a io_scheme cand_page config" where
  \<comment> \<open>the nested card, with the identifier \<open>`${c.id}-cv`\<close>\<close>
  "cv_config cid =
     \<lparr>card_id = String (js_String cid @ ''-cv''), onInit = Some cv_onInit,
      onExpand = Some cv_onExpand, onCollapse = Some (\<lambda>i c w. (c, w)),
      initiallyExpanded = Undefined\<rparr>"

text \<open>
  \<open>onInit\<close> of the candidate card fills the header (the name, or \<open>(Unnamed)\<close>), the
  name field and the footer, then builds the nested CV card and mounts it in the body.
\<close>

definition cand_onInit :: "browser \<Rightarrow> 'a io_scheme cand_page hook" where
  "cand_onInit b i c w =
     (if header c = None \<or> body c = None \<or> footer c = None then (c, w)
      else
        (let v = \<lparr>cand_title = text_of b (escapeHtml (js_or (candidate_name (cand (ui w)))
                                                      (String ''(Unnamed)''))),
                  nameInput = \<lparr>input_value = value_of b (escapeHtml
                                   (js_or (candidate_name (cand (ui w))) (String []))),
                               disabled = True\<rparr>,
                  cand_btnEdit = ''Edit''\<rparr>;
             w1 = w\<lparr>ui := (ui w)\<lparr>cview := Some v\<rparr>\<rparr>
         in case makeCard (cv_config (c_id (cand (ui w1)))) w1 of
              Inl e \<Rightarrow> (c, w1)
            | Inr s \<Rightarrow>
                (c, (page s)\<lparr>ui := (ui (page s))\<lparr>nested := Some (node s),
                                                  nested_calls := calls s\<rparr>\<rparr>)))"

definition cand_config :: "browser \<Rightarrow> jsval \<Rightarrow> 'a io_scheme cand_page config" where
  "cand_config b cid =
     \<lparr>card_id = cid, onInit = Some (cand_onInit b), onExpand = Some (cand_onExpand b),
      onCollapse = Some (\<lambda>i c w. (c, w)), initiallyExpanded = Undefined\<rparr>"

definition buildCandidateCard ::
  "browser \<Rightarrow> candidate \<Rightarrow> 'a io_scheme \<Rightarrow> error + 'a io_scheme cand_page st" where
  "buildCandidateCard b c e =
     makeCard (cand_config b (c_id c))
       \<lparr>env = e,
        ui = \<lparr>cand = c, cview = None, pre = None, nested = None, nested_calls = [],
              unhandled = []\<rparr>\<rparr>"

text \<open>
  The events a candidate card receives on its two headers. An event on the nested
  card's header runs that card's listener on the same page state.
\<close>

datatype cand_event = Card_header header_event | Cv_header header_event

definition cv_header_listener ::
  "jsval \<Rightarrow> header_event \<Rightarrow> 'a io_scheme cand_page st \<Rightarrow> 'a io_scheme cand_page st" where
  "cv_header_listener cid e s =
     (case nested (ui (page s)) of
        None \<Rightarrow> s
      | Some n \<Rightarrow>
          (let s2 = header_listener (cv_config cid) e
                      \<lparr>node = n, didInit = True, page = page s,
                       calls = nested_calls (ui (page s))\<rparr>
           in s\<lparr>page := (page s2)\<lparr>ui := (ui (page s2))\<lparr>nested := Some (node s2),
                                                         nested_calls := calls s2\<rparr>\<rparr>\<rparr>))"

fun cand_listener ::
  "browser \<Rightarrow> jsval \<Rightarrow> cand_event \<Rightarrow> 'a io_scheme cand_page st \<Rightarrow> 'a io_scheme cand_page st" where
  "cand_listener b cid (Card_header e) s = header_listener (cand_config b cid) e s"
| "cand_listener b cid (Cv_header e) s = cv_header_listener cid e s"

fun cand_events ::
  "browser \<Rightarrow> jsval \<Rightarrow> cand_event list \<Rightarrow> 'a io_scheme cand_page st \<Rightarrow> 'a io_scheme cand_page st" where
  "cand_events b cid [] s = s"
| "cand_events b cid (e # es) s = cand_events b cid es (cand_listener b cid e s)"




section \<open>The whole page\<close>












section \<open>Predicates of the statements\<close>

text \<open>
  \<open>preserves f h\<close>: the hook \<open>h\<close>, if there is one, leaves the observation \<open>f\<close> of the
  card it is handed as it was. It is the condition under which a statement about the
  card's own state can be made across a call of caller code.
\<close>

definition preserves :: "(card \<Rightarrow> 'a) \<Rightarrow> 'w hook option \<Rightarrow> bool" where
  "preserves f ho = (\<forall>h i c w. ho = Some h \<longrightarrow> f (fst (h i c w)) = f c)"

text \<open>
  The hooks a run of \<open>n\<close> toggles fires on a card that is \<open>expanded\<close> or not at its
  start: alternately \<open>onCollapse\<close> and \<open>onExpand\<close>, each if the configuration has it.
\<close>

fun alternating_hooks :: "'w config \<Rightarrow> bool \<Rightarrow> nat \<Rightarrow> hook_name list" where
  "alternating_hooks cfg expanded 0 = []"
| "alternating_hooks cfg expanded (Suc n) =
     (if expanded then (case onCollapse cfg of None \<Rightarrow> [] | Some h \<Rightarrow> [OnCollapse])
      else (case onExpand cfg of None \<Rightarrow> [] | Some h \<Rightarrow> [OnExpand]))
     @ alternating_hooks cfg (\<not> expanded) n"

text \<open>
  A request has failed when \<open>fetch\<close> threw or the response is not \<open>ok\<close>.
\<close>

definition failed :: "response \<Rightarrow> bool" where
  "failed r = (case r of Network_error \<Rightarrow> True | Response ok b \<Rightarrow> \<not> ok)"

text \<open>
  A blank document is a successful reply whose \<open>content\<close> leaves the display region
  empty: the empty string, \<open>null\<close>, or no such property. \<open>has_text\<close> is the test
  both expand hooks make of the region; \<open>next_reply\<close> is what the server answers to
  the next request; \<open>expand_effect\<close> is what one expand hook, and one event on either
  header, does to the page; \<open>one_fetch\<close> relates a page to an earlier one from which
  at most one request has been issued, leaving text.
\<close>

definition blank_document :: "response \<Rightarrow> bool" where
  \<comment> \<open>a successful reply whose document has an empty or missing \<open>content\<close>\<close>
  "blank_document r =
     (case r of
        Network_error \<Rightarrow> False
      | Response ok b \<Rightarrow>
          ok \<and> (case b of Invalid_json \<Rightarrow> False | Json_null \<Rightarrow> False
                | Json_obj doc \<Rightarrow> textContent_of (content doc) = []))"

definition has_text :: "'e cand_page \<Rightarrow> bool" where
  "has_text w = (case pre (ui w) of None \<Rightarrow> False | Some t \<Rightarrow> t \<noteq> [])"

definition next_reply :: "'a io_scheme cand_page \<Rightarrow> response" where
  \<comment> \<open>what the server answers to the next request of the page\<close>
  "next_reply w = server (env w) (length (requests (env w)))"

definition expand_effect :: "'a io_scheme cand_page \<Rightarrow> 'a io_scheme cand_page \<Rightarrow> bool" where
  "expand_effect w w' =
     (server (env w') = server (env w)
      \<and> (has_text w \<longrightarrow> requests (env w') = requests (env w) \<and> has_text w')
      \<and> (requests (env w') = requests (env w)
          \<or> (length (requests (env w')) = Suc (length (requests (env w)))
              \<and> has_text w' = (\<not> blank_document (next_reply w)))))"

definition one_fetch :: "'a io_scheme cand_page \<Rightarrow> 'a io_scheme cand_page \<Rightarrow> bool" where
  "one_fetch w0 w =
     (server (env w) = server (env w0)
      \<and> (requests (env w) = requests (env w0)
          \<or> (length (requests (env w)) = Suc (length (requests (env w0))) \<and> has_text w)))"

section \<open>Sample cards and pages\<close>

text \<open>
  A hook that counts its invocations in the page state, two configurations with it
  (collapsed and expanded at creation), and the cards \<open>makeCard\<close> returns for them.
\<close>

definition count_hook :: "nat hook" where
  "count_hook i c w = (c, Suc w)"

definition demo_config :: "nat config" where
  "demo_config = \<lparr>card_id = String ''job-1'', onInit = Some count_hook,
                   onExpand = Some count_hook, onCollapse = Some count_hook,
                   initiallyExpanded = Undefined\<rparr>"

definition demo_card :: "nat st" where
  "demo_card = \<lparr>node = new_card (String ''job-1''), didInit = True, page = 1,
      calls = [\<lparr>hook = OnInit, arg_id = String ''job-1'', arg_root = new_card (String ''job-1'')\<rparr>]\<rparr>"



definition bare_config :: "nat config" where
  \<comment> \<open>an identifier and nothing else: \<open>makeCard({ id: 'job-1' })\<close>\<close>
  "bare_config = \<lparr>card_id = String ''job-1'', onInit = None, onExpand = None, onCollapse = None,
                   initiallyExpanded = Undefined\<rparr>"

text \<open>
  Hooks that can be told apart by what they do to the page state, a number: \<open>onInit\<close>
  adds 100, \<open>onExpand\<close> adds 1 and \<open>onCollapse\<close> adds 10. The card \<open>makeCard\<close>
  returns for them, and that card after one expand.
\<close>

definition tally :: "nat \<Rightarrow> nat hook" where
  "tally k i c w = (c, w + k)"

definition tally_config :: "nat config" where
  "tally_config = \<lparr>card_id = String ''job-1'', onInit = Some (tally 100),
                    onExpand = Some (tally 1), onCollapse = Some (tally 10),
                    initiallyExpanded = Undefined\<rparr>"

definition tally_card :: "nat st" where
  "tally_card = \<lparr>node = new_card (String ''job-1''), didInit = True, page = 100,
      calls = [\<lparr>hook = OnInit, arg_id = String ''job-1'', arg_root = new_card (String ''job-1'')\<rparr>]\<rparr>"

definition tally_expanded :: "nat st" where
  "tally_expanded =
     \<lparr>node = toggleExpanded (new_card (String ''job-1'')) True, didInit = True, page = 101,
      calls = [\<lparr>hook = OnInit, arg_id = String ''job-1'', arg_root = new_card (String ''job-1'')\<rparr>,
               \<lparr>hook = OnExpand, arg_id = String ''job-1'',
                arg_root = toggleExpanded (new_card (String ''job-1'')) True\<rparr>]\<rparr>"

text \<open>
  Two candidates with a CV, the second with a double quote in its identifier; a
  browser; two servers; the card built for the first candidate, the page of the card of
  the second, and the events that expand a card twice.
\<close>

definition demo_candidate :: candidate where
  "demo_candidate = \<lparr>c_id = String ''c1'', candidate_name = String ''Ada'',
                      candidate_cv_id = String ''d1''\<rparr>"

definition quoted_candidate :: candidate where
  \<comment> \<open>a candidate whose identifier holds a double quote\<close>
  "quoted_candidate = \<lparr>c_id = String (''a'' @ [CHR 0x22] @ ''b''), candidate_name = String ''Bob'',
                        candidate_cv_id = String ''d3''\<rparr>"

definition demo_browser :: browser where
  \<comment> \<open>a browser showing the card of \<open>demo_candidate\<close>: texts without markup are parsed to
      themselves; the selector of the card's CV card finds that card, another selector
      finds nothing when it has the two quotes of one attribute value, and is refused
      as invalid otherwise\<close>
  "demo_browser =
     \<lparr>text_of = id, value_of = id, textarea_of = id,
      root_query = (\<lambda>sel. if sel = ''[data-card-id='' @ [CHR 0x22] @ ''c1-cv'' @ [CHR 0x22] @ '']''
                           then Element True
                           else if length (filter (\<lambda>c. c = CHR 0x22) sel) = 2 then No_element
                           else Invalid_selector)\<rparr>"

definition blank_io :: io where
  \<comment> \<open>a server whose documents have the empty string as content\<close>
  "blank_io = \<lparr>requests = [],
               server = (\<lambda>n. Response True (Json_obj (no_properties\<lparr>content := String []\<rparr>))),
               alerts = []\<rparr>"

definition text_io :: io where
  \<comment> \<open>a server whose documents read \<open>CV text\<close>\<close>
  "text_io = \<lparr>requests = [],
              server = (\<lambda>n. Response True (Json_obj (no_properties\<lparr>content := String ''CV text''\<rparr>))),
              alerts = []\<rparr>"

definition built_candidate :: "io \<Rightarrow> io cand_page st" where
  \<comment> \<open>the card \<open>buildCandidateCard\<close> makes of \<open>demo_candidate\<close>\<close>
  "built_candidate w =
     \<lparr>node = new_card (String ''c1''), didInit = True,
      page = \<lparr>env = w,
               ui = \<lparr>cand = demo_candidate,
                     cview = Some \<lparr>cand_title = ''Ada'',
                                   nameInput = \<lparr>input_value = ''Ada'', disabled = True\<rparr>,
                                   cand_btnEdit = ''Edit''\<rparr>,
                     pre = Some [],
                     nested = Some (new_card (String ''c1-cv'')),
                     nested_calls = [\<lparr>hook = OnInit, arg_id = String ''c1-cv'',
                                      arg_root = new_card (String ''c1-cv'')\<rparr>],
                     unhandled = []\<rparr>\<rparr>,
      calls = [\<lparr>hook = OnInit, arg_id = String ''c1'', arg_root = new_card (String ''c1'')\<rparr>]\<rparr>"

definition quoted_page :: "io cand_page" where
  \<comment> \<open>the page of the card of \<open>quoted_candidate\<close>, its CV region still empty\<close>
  "quoted_page =
     \<lparr>env = text_io,
      ui = \<lparr>cand = quoted_candidate, cview = None, pre = Some [], nested = None,
            nested_calls = [], unhandled = []\<rparr>\<rparr>"

definition expand_twice :: "cand_event list" where
  \<comment> \<open>expand, collapse, expand again\<close>
  "expand_twice = [Card_header Click, Card_header Click, Card_header Click]"

text \<open>
  Two jobs, a job card in edit mode, servers that fail in different ways, and the page
  and the candidate card that talk to them.
\<close>

definition demo_job :: job where
  "demo_job = \<lparr>j_id = String ''j1'', job_title = String ''Engineer'',
                company_name = String ''Acme'', job_description = String ''Builds things''\<rparr>"

definition clerk_job :: job where
  "clerk_job = \<lparr>j_id = String ''j2'', job_title = String ''Clerk'',
                 company_name = Null, job_description = String ''Files things''\<rparr>"

definition editing_view :: job_view where
  \<comment> \<open>the card of \<open>demo_job\<close> in edit mode, the title changed by the user\<close>
  "editing_view =
     \<lparr>card_title = ''Engineer'', card_subtitle = ''Acme'',
      titleInput = \<lparr>input_value = ''Senior Engineer'', disabled = False\<rparr>,
      companyInput = \<lparr>input_value = ''Acme'', disabled = False\<rparr>,
      desc = \<lparr>input_value = ''Builds things'', disabled = False\<rparr>,
      btnEdit = ''Save''\<rparr>"

definition editing_job :: job_ui where
  "editing_job = \<lparr>job = demo_job, view = Some editing_view\<rparr>"

definition failing_io :: io where
  \<comment> \<open>a server that answers every request with a non-2xx status\<close>
  "failing_io = \<lparr>requests = [], server = (\<lambda>n. Response False Invalid_json), alerts = []\<rparr>"









definition search_page :: "string \<Rightarrow> jobs_ui" where
  \<comment> \<open>the server lists two jobs; the selector holds the options of an earlier list,
      the one with value \<open>v\<close> selected\<close>
  "search_page v =
     \<lparr>requests = [],
      server = (\<lambda>n. Response True (Json_obj (no_properties\<lparr>jobs := Some [demo_job, clerk_job]\<rparr>))),
      alerts = [],
      searchSelect = set_select_value v
        \<lparr>options = [(''j0'', ''Gone''), (''j2'', ''Clerk'')], selectedIndex = None, multiple = False\<rparr>,
      searchInfo = []\<rparr>"

section \<open>Properties of escapeHtml\<close>

lemma entity_clean:
  "CHR ''<'' \<notin> set (js_String (entity r))
   \<and> CHR ''>'' \<notin> set (js_String (entity r))
   \<and> CHR 0x22 \<notin> set (js_String (entity r))"
  by (simp add: entity_def)

lemma replace_special_clean:
  "CHR ''<'' \<notin> set (replace_special s)
   \<and> CHR ''>'' \<notin> set (replace_special s)
   \<and> CHR 0x22 \<notin> set (replace_special s)"
proof (induction s rule: replace_special.induct)
  case 1
  show ?case by simp
next
  case (2 c cs)
  show ?case
  proof (cases "special c")
    case True
    with 2 entity_clean [of "takeWhile special (c # cs)"] show ?thesis
      by simp
  next
    case False
    with 2 show ?thesis
      by (auto simp: special_def)
  qed
qed

text \<open>
  C10. Whatever value \<open>escapeHtml\<close> receives, its result contains none of the characters
  \<open><\<close>, \<open>>\<close> and the double quote, and for \<open>null\<close>, \<open>undefined\<close> and the empty string
  the result is the empty string.
\<close>

theorem escapeHtml_no_markup:
  "CHR ''<'' \<notin> set (escapeHtml v)
   \<and> CHR ''>'' \<notin> set (escapeHtml v)
   \<and> CHR 0x22 \<notin> set (escapeHtml v)
   \<and> escapeHtml Null = []
   \<and> escapeHtml Undefined = []
   \<and> escapeHtml (String []) = []"
  using replace_special_clean [of "js_String (js_or v (String []))"]
  by (simp add: escapeHtml_def js_or_def)

section \<open>Properties of the card factory\<close>

lemma is_expanded_toggleExpanded: "is_expanded (toggleExpanded c b) = b"
  by (simp add: is_expanded_def toggleExpanded_def classList_contains_def classList_add_def
      classList_remove_def Let_def split: option.split)

lemma aria_toggleExpanded_True: "aria_expanded (toggleExpanded c True) = aria_expanded c"
  by (simp add: toggleExpanded_def aria_expanded_def)

lemma aria_toggleExpanded_False:
  "header c \<noteq> None \<Longrightarrow> aria_expanded (toggleExpanded c False) = Some ''false''"
  by (auto simp: toggleExpanded_def aria_expanded_def getAttribute_def setAttribute_def
      Let_def update_conv' split: option.split)


lemma toggleExpanded_new_card: "toggleExpanded (new_card i) False = new_card i"
  by (simp add: toggleExpanded_def new_card_def classList_remove_def setAttribute_def
      set_className_def createElement_def Let_def)

lemma new_card_regions:
  "header (new_card i) \<noteq> None \<and> body (new_card i) \<noteq> None \<and> footer (new_card i) \<noteq> None"
  by (simp add: new_card_def)

lemma new_card_collapsed: "\<not> is_expanded (new_card i)"
  by (simp add: is_expanded_def new_card_def classList_contains_def setAttribute_def
      set_className_def createElement_def)

lemma new_card_id:
  "getAttribute ''data-card-id'' (root (new_card i)) = Some (js_String i)
   \<and> classList (root (new_card i)) = [''card'']"
  by (simp add: new_card_def getAttribute_def setAttribute_def set_className_def createElement_def)

lemma calls_call_hook:
  "calls (call_hook nm f i s) =
     calls s @ (case f of None \<Rightarrow> [] | Some h \<Rightarrow> [\<lparr>hook = nm, arg_id = i, arg_root = node s\<rparr>])"
  by (simp add: call_hook_def split: option.split prod.split)

lemma node_call_hook:
  "node (call_hook nm f i s) = (case f of None \<Rightarrow> node s | Some h \<Rightarrow> fst (h i (node s) (page s)))"
  by (simp add: call_hook_def split: option.split prod.split)

lemma page_call_hook:
  "page (call_hook nm f i s) = (case f of None \<Rightarrow> page s | Some h \<Rightarrow> snd (h i (node s) (page s)))"
  by (simp add: call_hook_def split: option.split prod.split)

lemma preserves_call_hook:
  "preserves f ho \<Longrightarrow> f (node (call_hook nm ho i s)) = f (node s)"
  by (cases ho) (simp_all add: preserves_def node_call_hook)

lemma preserves_count_hook: "preserves f (Some count_hook)"
  by (simp add: preserves_def count_hook_def)

lemma repository_hooks_preserve:
  "preserves f (onInit (job_config b j))
   \<and> preserves f (onExpand (job_config b j))
   \<and> preserves f (onCollapse (job_config b j))
   \<and> preserves f (onInit (cand_config b cid))
   \<and> preserves f (onExpand (cand_config b cid))
   \<and> preserves f (onCollapse (cand_config b cid))
   \<and> preserves f (onInit (cv_config cid))
   \<and> preserves f (onExpand (cv_config cid))
   \<and> preserves f (onCollapse (cv_config cid))"
  by (simp add: preserves_def job_config_def cand_config_def cv_config_def job_onInit_def
      cand_onInit_def cand_onExpand_def cv_onInit_def cv_onExpand_def Let_def
      split: option.split sum.split selected.split)

lemma onToggle_cases:
  "onToggle cfg s = (if is_expanded (node s) then doCollapse cfg s else doExpand cfg s)"
  by (simp add: onToggle_def is_expanded_def)

lemma header_listener_toggles:
  "header_listener cfg e s = (if toggles e then onToggle cfg s else s)"
  by (cases e) simp_all

lemma toggle_step:
  assumes "preserves is_expanded (onExpand cfg)" and "preserves is_expanded (onCollapse cfg)"
  shows "is_expanded (node (onToggle cfg s)) = (\<not> is_expanded (node s))"
  using assms
  by (simp add: onToggle_cases doCollapse_def doExpand_def preserves_call_hook
      is_expanded_toggleExpanded)

lemma toggle_calls:
  "calls (onToggle cfg s) =
     calls s @
     (if is_expanded (node s)
      then (case onCollapse cfg of None \<Rightarrow> []
            | Some h \<Rightarrow> [\<lparr>hook = OnCollapse, arg_id = card_id cfg,
                           arg_root = toggleExpanded (node s) False\<rparr>])
      else (case onExpand cfg of None \<Rightarrow> []
            | Some h \<Rightarrow> [\<lparr>hook = OnExpand, arg_id = card_id cfg,
                           arg_root = toggleExpanded (node s) True\<rparr>]))"
  by (simp add: onToggle_cases doExpand_def doCollapse_def calls_call_hook split: option.split)

lemma toggle_applies_hook:
  "(node (onToggle cfg s), page (onToggle cfg s)) =
     (if is_expanded (node s)
      then (case onCollapse cfg of
              None \<Rightarrow> (toggleExpanded (node s) False, page s)
            | Some h \<Rightarrow> h (card_id cfg) (toggleExpanded (node s) False) (page s))
      else (case onExpand cfg of
              None \<Rightarrow> (toggleExpanded (node s) True, page s)
            | Some h \<Rightarrow> h (card_id cfg) (toggleExpanded (node s) True) (page s)))"
  by (simp add: onToggle_cases doExpand_def doCollapse_def call_hook_def
      split: option.split prod.split)

lemma events_expanded:
  assumes "preserves is_expanded (onExpand cfg)" and "preserves is_expanded (onCollapse cfg)"
  shows "is_expanded (node (header_events cfg es s))
         = (is_expanded (node s) \<noteq> odd (length (filter toggles es)))"
proof (induction es arbitrary: s)
  case Nil
  show ?case by simp
next
  case (Cons e es)
  show ?case
    using toggle_step [OF assms, of s]
    by (auto simp: Cons.IH header_listener_toggles)
qed

lemma events_hooks:
  assumes "preserves is_expanded (onExpand cfg)" and "preserves is_expanded (onCollapse cfg)"
  shows "map hook (calls (header_events cfg es s))
         = map hook (calls s)
           @ alternating_hooks cfg (is_expanded (node s)) (length (filter toggles es))"
proof (induction es arbitrary: s)
  case Nil
  show ?case by simp
next
  case (Cons e es)
  show ?case
  proof (cases "toggles e")
    case False
    then show ?thesis by (simp add: Cons.IH header_listener_toggles)
  next
    case True
    then show ?thesis
      using toggle_step [OF assms, of s]
      by (simp add: Cons.IH header_listener_toggles toggle_calls split: option.split)
  qed
qed

lemma makeCard_demo: "makeCard demo_config 0 = Inr demo_card"
  by (simp add: makeCard_def demo_config_def demo_card_def call_hook_def count_hook_def
       default_false_def new_card_def toggleExpanded_def classList_remove_def setAttribute_def
       set_className_def createElement_def Let_def)


lemma preserves_tally: "preserves f (Some (tally k))"
  by (simp add: preserves_def tally_def)

lemma makeCard_tally: "makeCard tally_config 0 = Inr tally_card"
  by (simp add: makeCard_def tally_config_def tally_card_def call_hook_def tally_def
       default_false_def toggleExpanded_new_card Let_def)

lemma tally_card_collapsed: "\<not> is_expanded (node tally_card)"
  by (simp add: tally_card_def new_card_collapsed)

lemma tally_expanded_expanded: "is_expanded (node tally_expanded)"
  by (simp add: tally_expanded_def is_expanded_toggleExpanded)

lemma tally_hooks:
  "onExpand tally_config = Some (tally 1)" "onCollapse tally_config = Some (tally 10)"
  "card_id tally_config = String ''job-1''"
  "preserves is_expanded (onExpand tally_config)" "preserves is_expanded (onCollapse tally_config)"
  by (simp_all add: tally_config_def preserves_tally)

text \<open>
  C1. A click, or a keydown of Enter or space, on the header of a card toggles it
  between its two states. A collapsed card becomes expanded and \<open>onExpand\<close> (when
  supplied) is called exactly once, with the root already carrying the class
  \<open>expanded\<close>; an expanded card becomes collapsed and \<open>onCollapse\<close> is called exactly
  once, with the class already removed. In both cases the card and the page state after
  the event are what that one application of the hook returned for the toggled card
  (the toggled card and the page state as it was, when the hook is not supplied). Over
  any sequence of header events the state after it is the state before it flipped once
  per toggling event, and the hooks called are alternately \<open>onExpand\<close> and
  \<open>onCollapse\<close>. The hooks are caller code: the statement is for hooks that do not
  themselves change the class on the root.
\<close>

theorem header_toggle_alternates:
  assumes exp: "preserves is_expanded (onExpand cfg)"
      and col: "preserves is_expanded (onCollapse cfg)"
      and tog: "toggles e"
  shows "(\<not> is_expanded (node s) \<longrightarrow>
            is_expanded (node (header_listener cfg e s))
            \<and> calls (header_listener cfg e s) =
                calls s @ (case onExpand cfg of None \<Rightarrow> []
                           | Some h \<Rightarrow> [\<lparr>hook = OnExpand, arg_id = card_id cfg,
                                          arg_root = toggleExpanded (node s) True\<rparr>])
            \<and> is_expanded (toggleExpanded (node s) True)
            \<and> (node (header_listener cfg e s), page (header_listener cfg e s)) =
                (case onExpand cfg of
                   None \<Rightarrow> (toggleExpanded (node s) True, page s)
                 | Some h \<Rightarrow> h (card_id cfg) (toggleExpanded (node s) True) (page s)))
       \<and> (is_expanded (node s) \<longrightarrow>
            \<not> is_expanded (node (header_listener cfg e s))
            \<and> calls (header_listener cfg e s) =
                calls s @ (case onCollapse cfg of None \<Rightarrow> []
                           | Some h \<Rightarrow> [\<lparr>hook = OnCollapse, arg_id = card_id cfg,
                                          arg_root = toggleExpanded (node s) False\<rparr>])
            \<and> \<not> is_expanded (toggleExpanded (node s) False)
            \<and> (node (header_listener cfg e s), page (header_listener cfg e s)) =
                (case onCollapse cfg of
                   None \<Rightarrow> (toggleExpanded (node s) False, page s)
                 | Some h \<Rightarrow> h (card_id cfg) (toggleExpanded (node s) False) (page s)))
       \<and> (\<forall>es. is_expanded (node (header_events cfg es s))
                 = (is_expanded (node s) \<noteq> odd (length (filter toggles es))))
       \<and> (\<forall>es. map hook (calls (header_events cfg es s))
                 = map hook (calls s)
                   @ alternating_hooks cfg (is_expanded (node s)) (length (filter toggles es)))"
proof -
  have l: "header_listener cfg e s = onToggle cfg s"
    using tog by (simp add: header_listener_toggles)
  have 1: "is_expanded (node (header_listener cfg e s)) = (\<not> is_expanded (node s))"
    unfolding l by (rule toggle_step [OF exp col])
  have 2: "(node (header_listener cfg e s), page (header_listener cfg e s)) =
     (if is_expanded (node s)
      then (case onCollapse cfg of
              None \<Rightarrow> (toggleExpanded (node s) False, page s)
            | Some h \<Rightarrow> h (card_id cfg) (toggleExpanded (node s) False) (page s))
      else (case onExpand cfg of
              None \<Rightarrow> (toggleExpanded (node s) True, page s)
            | Some h \<Rightarrow> h (card_id cfg) (toggleExpanded (node s) True) (page s)))"
    unfolding l by (rule toggle_applies_hook)
  have 3: "calls (header_listener cfg e s) =
     calls s @
     (if is_expanded (node s)
      then (case onCollapse cfg of None \<Rightarrow> []
            | Some h \<Rightarrow> [\<lparr>hook = OnCollapse, arg_id = card_id cfg,
                           arg_root = toggleExpanded (node s) False\<rparr>])
      else (case onExpand cfg of None \<Rightarrow> []
            | Some h \<Rightarrow> [\<lparr>hook = OnExpand, arg_id = card_id cfg,
                           arg_root = toggleExpanded (node s) True\<rparr>]))"
    unfolding l by (rule toggle_calls)
  have 4: "\<forall>es. is_expanded (node (header_events cfg es s))
                 = (is_expanded (node s) \<noteq> odd (length (filter toggles es)))"
    using events_expanded [OF exp col, of _ s] by blast
  have 5: "\<forall>es. map hook (calls (header_events cfg es s))
                 = map hook (calls s)
                   @ alternating_hooks cfg (is_expanded (node s)) (length (filter toggles es))"
    using events_hooks [OF exp col, of _ s] by blast
  show ?thesis
  proof (cases "is_expanded (node s)")
    case True
    with 1 2 3 4 5 show ?thesis
      by (simp add: is_expanded_toggleExpanded)
  next
    case False
    with 1 2 3 4 5 show ?thesis
      by (simp add: is_expanded_toggleExpanded)
  qed
qed

text \<open>
  C1 at the sample card with the hooks that can be told apart: Enter expands it and
  \<open>onExpand\<close> alone has run (the page state goes from 100 to 101); a click then
  collapses it and \<open>onCollapse\<close> alone has run (111); a click, an unrelated key and a
  space leave the card collapsed after one \<open>onExpand\<close> and one \<open>onCollapse\<close>.
\<close>

theorem header_toggle_alternates_witness:
  "makeCard tally_config 0 = Inr tally_card
   \<and> preserves is_expanded (onExpand tally_config)
   \<and> preserves is_expanded (onCollapse tally_config)
   \<and> toggles (Keydown ''Enter'')
   \<and> \<not> is_expanded (node tally_card)
   \<and> header_listener tally_config (Keydown ''Enter'') tally_card = tally_expanded
   \<and> page tally_expanded = 101
   \<and> is_expanded (node tally_expanded)
   \<and> toggles Click
   \<and> \<not> is_expanded (node (header_listener tally_config Click tally_expanded))
   \<and> page (header_listener tally_config Click tally_expanded) = 111
   \<and> map hook (calls (header_listener tally_config Click tally_expanded))
       = [OnInit, OnExpand, OnCollapse]
   \<and> \<not> is_expanded (node (header_events tally_config [Click, Keydown ''a'', Keydown '' ''] tally_card))
   \<and> map hook (calls (header_events tally_config [Click, Keydown ''a'', Keydown '' ''] tally_card))
       = [OnInit, OnExpand, OnCollapse]"
proof -
  note h = tally_hooks
  have t: "toggles (Keydown ''Enter'')" "toggles Click" by simp_all
  note n = tally_card_collapsed
  note x = tally_expanded_expanded
  note T1 = header_toggle_alternates [OF h(4) h(5) t(1), of tally_card]
  note T2 = header_toggle_alternates [OF h(4) h(5) t(2), of tally_expanded]
  have c1: "calls tally_card
      = [\<lparr>hook = OnInit, arg_id = String ''job-1'', arg_root = new_card (String ''job-1'')\<rparr>]"
    "node tally_card = new_card (String ''job-1'')" "page tally_card = 100"
    "didInit tally_card = True"
    by (simp_all add: tally_card_def)
  from T1 n have "node (header_listener tally_config (Keydown ''Enter'') tally_card)
        = toggleExpanded (new_card (String ''job-1'')) True
      \<and> page (header_listener tally_config (Keydown ''Enter'') tally_card) = 101
      \<and> calls (header_listener tally_config (Keydown ''Enter'') tally_card) = calls tally_expanded"
    by (simp add: h c1 tally_def tally_expanded_def del: header_listener.simps)
  moreover have "didInit (header_listener tally_config (Keydown ''Enter'') tally_card) = True"
    by (simp add: onToggle_def doExpand_def doCollapse_def call_hook_def Let_def c1 h
        split: prod.split)
  ultimately have one: "header_listener tally_config (Keydown ''Enter'') tally_card = tally_expanded"
    by (intro st.equality) (simp_all add: tally_expanded_def)
  have p: "page tally_expanded = 101"
    by (simp add: tally_expanded_def)
  have c2: "map hook (calls tally_expanded) = [OnInit, OnExpand]"
    by (simp add: tally_expanded_def)
  from T2 x p c2 have two: "\<not> is_expanded (node (header_listener tally_config Click tally_expanded))
      \<and> page (header_listener tally_config Click tally_expanded) = 111
      \<and> map hook (calls (header_listener tally_config Click tally_expanded))
          = [OnInit, OnExpand, OnCollapse]"
    by (simp add: h tally_def del: header_listener.simps)
  have "is_expanded (node (header_events tally_config es tally_card))
          = (is_expanded (node tally_card) \<noteq> odd (length (filter toggles es)))
      \<and> map hook (calls (header_events tally_config es tally_card))
          = map hook (calls tally_card)
            @ alternating_hooks tally_config (is_expanded (node tally_card))
                (length (filter toggles es))"
    for es
    using T1 by blast
  from this [of "[Click, Keydown ''a'', Keydown '' '']"] n
  have many: "\<not> is_expanded (node (header_events tally_config [Click, Keydown ''a'', Keydown '' ''] tally_card))
      \<and> map hook (calls (header_events tally_config [Click, Keydown ''a'', Keydown '' ''] tally_card))
          = [OnInit, OnExpand, OnCollapse]"
    by (simp add: h c1 del: header_events.simps)
  show ?thesis
    using makeCard_tally h(4) h(5) t n one p x two many by blast
qed







text \<open>
  C3. \<open>makeCard\<close> throws \<open>Error('makeCard: `id` is required')\<close> exactly when the
  \<open>id\<close> of the configuration is not truthy (in particular when it is called with no
  configuration), before anything is created; for a truthy \<open>id\<close> it returns a card.
  Without hooks the card returned is the composed root, marked with
  \<open>data-card-id = String(id)\<close>, in its initial state. Hooks are taken to return
  normally.
\<close>

theorem makeCard_requires_truthy_id:
  "(\<not> truthy (card_id cfg) \<longrightarrow> makeCard cfg w = Inl (Error ''makeCard: `id` is required''))
   \<and> (truthy (card_id cfg) \<longrightarrow> (\<exists>s. makeCard cfg w = Inr s))
   \<and> (truthy (card_id cfg) \<and> onInit cfg = None \<and> onExpand cfg = None
      \<longrightarrow> makeCard cfg w =
            Inr \<lparr>node = toggleExpanded (new_card (card_id cfg))
                          (truthy (default_false (initiallyExpanded cfg))),
                 didInit = True, page = w, calls = []\<rparr>)
   \<and> getAttribute ''data-card-id'' (root (new_card (card_id cfg))) = Some (js_String (card_id cfg))
   \<and> makeCard no_config w = Inl (Error ''makeCard: `id` is required'')"
  by (simp add: makeCard_def no_config_def Let_def call_hook_def doExpand_def new_card_id)

text \<open>
  C3 at the missing configuration and at the sample configuration.
\<close>

theorem makeCard_requires_truthy_id_witness:
  "\<not> truthy (card_id (no_config :: nat config))
   \<and> makeCard (no_config :: nat config) 0 = Inl (Error ''makeCard: `id` is required'')
   \<and> truthy (card_id demo_config)
   \<and> makeCard demo_config 0 = Inr demo_card
   \<and> truthy (card_id bare_config) \<and> onInit bare_config = None \<and> onExpand bare_config = None
   \<and> makeCard bare_config 0
       = Inr \<lparr>node = new_card (String ''job-1''), didInit = True, page = 0, calls = []\<rparr>"
proof -
  have b: "truthy (card_id bare_config)" "onInit bare_config = None" "onExpand bare_config = None"
    by (simp_all add: bare_config_def)
  from makeCard_requires_truthy_id [of bare_config 0] b
  have "makeCard bare_config 0
       = Inr \<lparr>node = new_card (String ''job-1''), didInit = True, page = 0, calls = []\<rparr>"
    by (simp add: bare_config_def default_false_def toggleExpanded_new_card)
  with b show ?thesis
    using makeCard_requires_truthy_id [of "no_config :: nat config" 0]
      makeCard_requires_truthy_id [of demo_config 0] makeCard_demo
    by (simp add: no_config_def demo_config_def)
qed






lemma aria_needs_header: "aria_expanded c = Some v \<Longrightarrow> header c \<noteq> None"
  by (cases "header c") (simp_all add: aria_expanded_def)

lemma makeCard_aria:
  assumes "preserves aria_expanded (onInit cfg)" and "preserves aria_expanded (onExpand cfg)"
    and "makeCard cfg w = Inr s"
  shows "aria_expanded (node s) = Some ''false''"
proof -
  have n: "aria_expanded (new_card i) = Some ''false''" for i
    by (simp add: aria_expanded_def new_card_def getAttribute_def setAttribute_def
        set_className_def createElement_def)
  let ?s0 = "\<lparr>node = new_card (card_id cfg), didInit = True, page = w, calls = []\<rparr>"
  have i: "aria_expanded (node (call_hook OnInit (onInit cfg) (card_id cfg) ?s0)) = Some ''false''"
    using assms(1) by (simp add: preserves_call_hook n)
  then have h: "header (node (call_hook OnInit (onInit cfg) (card_id cfg) ?s0)) \<noteq> None"
    by (rule aria_needs_header)
  show ?thesis
    using assms(2,3) i h
    by (auto simp: makeCard_def Let_def doExpand_def preserves_call_hook
        aria_toggleExpanded_True aria_toggleExpanded_False split: if_splits)
qed

lemma toggle_aria:
  assumes "preserves aria_expanded (onExpand cfg)" and "preserves aria_expanded (onCollapse cfg)"
    and "aria_expanded (node s) = Some ''false''"
  shows "aria_expanded (node (onToggle cfg s)) = Some ''false''"
proof -
  from assms(3) have "header (node s) \<noteq> None"
    by (rule aria_needs_header)
  with assms show ?thesis
    by (simp add: onToggle_cases doExpand_def doCollapse_def preserves_call_hook
        aria_toggleExpanded_True aria_toggleExpanded_False)
qed

lemma events_aria:
  assumes "preserves aria_expanded (onExpand cfg)" and "preserves aria_expanded (onCollapse cfg)"
  shows "aria_expanded (node s) = Some ''false''
         \<Longrightarrow> aria_expanded (node (header_events cfg es s)) = Some ''false''"
proof (induction es arbitrary: s)
  case Nil
  then show ?case by simp
next
  case (Cons e es)
  then show ?case
    using toggle_aria [OF assms, of s]
    by (simp add: header_listener_toggles)
qed

text \<open>
  C9. \<open>doCollapse\<close> sets the header's \<open>aria-expanded\<close> attribute to \<open>false\<close>;
  \<open>doExpand\<close> and \<open>toggleExpanded(root, true)\<close> leave the attribute as it was. So on
  a card made by \<open>makeCard\<close> the attribute reads \<open>false\<close> after every sequence of
  header events, expanded or not. The statement is for hooks that do not themselves
  change the attribute.
\<close>

theorem aria_expanded_set_only_on_collapse:
  "(header (node s) \<noteq> None \<and> preserves aria_expanded (onCollapse cfg)
      \<longrightarrow> aria_expanded (node (doCollapse cfg s)) = Some ''false'')
   \<and> (preserves aria_expanded (onExpand cfg)
      \<longrightarrow> aria_expanded (node (doExpand cfg s)) = aria_expanded (node s))
   \<and> aria_expanded (toggleExpanded c True) = aria_expanded c
   \<and> (preserves aria_expanded (onInit cfg) \<and> preserves aria_expanded (onExpand cfg)
       \<and> preserves aria_expanded (onCollapse cfg) \<and> makeCard cfg w = Inr s'
      \<longrightarrow> (\<forall>es. aria_expanded (node (header_events cfg es s')) = Some ''false''))"
  using makeCard_aria [of cfg w s'] events_aria [of cfg s']
  by (simp add: doExpand_def doCollapse_def preserves_call_hook
      aria_toggleExpanded_True aria_toggleExpanded_False)

text \<open>
  C9 at the sample card: expanded, with \<open>aria-expanded\<close> still \<open>false\<close>.
\<close>

theorem aria_expanded_set_only_on_collapse_witness:
  "preserves aria_expanded (onInit demo_config)
   \<and> preserves aria_expanded (onExpand demo_config)
   \<and> preserves aria_expanded (onCollapse demo_config)
   \<and> makeCard demo_config 0 = Inr demo_card
   \<and> header (node demo_card) \<noteq> None
   \<and> aria_expanded (node (doExpand demo_config demo_card)) = Some ''false''
   \<and> is_expanded (node (doExpand demo_config demo_card))
   \<and> aria_expanded (node (doCollapse demo_config (doExpand demo_config demo_card))) = Some ''false''
   \<and> aria_expanded (node (header_events demo_config [Click, Click, Click] demo_card)) = Some ''false''"
proof -
  have p: "preserves aria_expanded (onInit demo_config)"
    "preserves aria_expanded (onExpand demo_config)"
    "preserves aria_expanded (onCollapse demo_config)"
    by (simp_all add: demo_config_def preserves_count_hook)
  have a: "aria_expanded (node demo_card) = Some ''false''"
    by (simp add: demo_card_def aria_expanded_def new_card_def getAttribute_def setAttribute_def
        set_className_def createElement_def)
  then have h: "header (node demo_card) \<noteq> None"
    by (rule aria_needs_header)
  note T = aria_expanded_set_only_on_collapse [of _ demo_config _ 0 demo_card]
  from T [of demo_card] p a
  have 1: "aria_expanded (node (doExpand demo_config demo_card)) = Some ''false''"
    by simp
  have 2: "is_expanded (node (doExpand demo_config demo_card))"
    by (simp add: doExpand_def demo_config_def call_hook_def count_hook_def
        is_expanded_toggleExpanded)
  from 1 have "header (node (doExpand demo_config demo_card)) \<noteq> None"
    by (rule aria_needs_header)
  with T [of "doExpand demo_config demo_card"] p
  have 3: "aria_expanded (node (doCollapse demo_config (doExpand demo_config demo_card))) = Some ''false''"
    by simp
  from T [of demo_card] p makeCard_demo
  have 4: "aria_expanded (node (header_events demo_config [Click, Click, Click] demo_card)) = Some ''false''"
    by (simp del: header_events.simps)
  from p makeCard_demo h 1 2 3 4 show ?thesis
    by (intro conjI)
qed

section \<open>Properties of the job selector\<close>

lemma foldl_appendChild:
  "options (foldl appendChild_option sel xs) = options sel @ xs
   \<and> multiple (foldl appendChild_option sel xs) = multiple sel
   \<and> selectedIndex (foldl appendChild_option sel xs)
       = (if xs \<noteq> [] \<and> \<not> multiple sel \<and> selectedIndex sel = None then Some 0
          else selectedIndex sel)"
  by (induction xs arbitrary: sel) (auto simp: appendChild_option_def Let_def)

lemma appended_to_cleared:
  "foldl appendChild_option (clear_options sel) xs
   = \<lparr>options = xs,
      selectedIndex = (if xs \<noteq> [] \<and> \<not> multiple sel then Some 0 else None),
      multiple = multiple sel\<rparr>"
  using foldl_appendChild [of "clear_options sel" xs]
  by (intro select.equality) (simp_all add: clear_options_def)

lemma index_of_Some:
  "v \<in> fst ` set xs \<Longrightarrow> \<exists>i. index_of v xs = Some i \<and> i < length xs \<and> fst (xs ! i) = v"
proof (induction xs)
  case Nil
  then show ?case by simp
next
  case (Cons x xs)
  show ?case
  proof (cases "fst x = v")
    case True
    then show ?thesis by simp
  next
    case False
    with Cons.prems have "v \<in> fst ` set xs" by auto
    from Cons.IH [OF this] obtain i where "index_of v xs = Some i" "i < length xs" "fst (xs ! i) = v"
      by blast
    with False show ?thesis by simp
  qed
qed

lemma first_selected:
  assumes "js = j # js'"
  shows "(let sel1 = \<lparr>options = map option_of js,
                      selectedIndex = (if map option_of js \<noteq> [] \<and> \<not> m then Some 0 else None),
                      multiple = m\<rparr>
          in (if select_value sel1 = [] then set_select_value (js_String (j_id j)) sel1 else sel1))
         = \<lparr>options = map option_of js, selectedIndex = Some 0, multiple = m\<rparr>"
  using assms
  by (auto simp: Let_def select_value_def set_select_value_def option_of_def)

lemma rebuild_select_eq:
  "rebuild_select js sel =
     \<lparr>options = map option_of js,
      selectedIndex =
        (if select_value sel \<noteq> [] \<and> select_value sel \<in> fst ` set (map option_of js)
         then index_of (select_value sel) (map option_of js)
         else if js = [] then None else Some 0),
      multiple = multiple sel\<rparr>"
proof (cases js)
  case Nil
  then show ?thesis
    by (simp add: rebuild_select_def Let_def clear_options_def)
next
  case (Cons j js')
  let ?S1 = "\<lparr>options = map option_of (j # js'),
               selectedIndex = (if map option_of (j # js') \<noteq> [] \<and> \<not> multiple sel
                                then Some 0 else None),
               multiple = multiple sel\<rparr>"
  let ?S2 = "\<lparr>options = map option_of (j # js'), selectedIndex = Some 0,
               multiple = multiple sel\<rparr>"
  have 2: "(if select_value ?S1 = [] then set_select_value (js_String (j_id j)) ?S1 else ?S1) = ?S2"
    using first_selected [of "j # js'" j js' "multiple sel"] by (simp only: Let_def)
  have "rebuild_select (j # js') sel =
          (if select_value sel \<noteq> [] \<and> list_ex (\<lambda>x. fst x = select_value sel) (options ?S2)
           then set_select_value (select_value sel) ?S2 else ?S2)"
    by (simp only: rebuild_select_def Let_def appended_to_cleared list.case 2)
  then show ?thesis
    unfolding Cons by (auto simp: set_select_value_def list_ex_iff image_iff)
qed

lemma rebuilt_options: "options (rebuild_select js sel) = map option_of js"
  by (simp add: rebuild_select_eq)

lemma fetchJobs_frame:
  "fetchJobs w = (r, w1) \<Longrightarrow>
     w1 = w\<lparr>requests := requests w @ [\<lparr>meth = ''GET'', url = API_BASE @ ''/jobs'', sent = []\<rparr>]\<rparr>"
  by (auto simp: fetchJobs_def fetch_def split: response.splits json.splits)

lemma find_string_id:
  assumes "j \<in> set js" and "js_String (j_id j) = v" and "\<forall>j\<in>set js. \<exists>s. j_id j = String s"
  shows "\<exists>j'\<in>set js. find (\<lambda>j. j_id j = String v) js = Some j' \<and> j_id j' = String v"
proof -
  from assms have "j_id j = String v" by auto
  with assms(1) have "\<exists>x\<in>set js. j_id x = String v" by blast
  then obtain j' where "find (\<lambda>j. j_id j = String v) js = Some j'"
    by (cases "find (\<lambda>j. j_id j = String v) js") (auto simp: find_None_iff)
  then show ?thesis
    by (auto simp: find_Some_iff)
qed

text \<open>
  C8. When \<open>ensureSearchJobs\<close> has fetched the list \<open>js\<close> it rebuilds the selector
  with one option per job. If the value selected before (\<open>curr\<close>, tested with
  \<open>curr &&\<close>, so not the empty string) is the value of one of the new options, it is
  selected again; otherwise the first option is selected when the list is not empty, and
  nothing when it is empty. The info line is then written by \<open>updateSearchInfo\<close> for
  the first job whose \<open>id\<close> is strictly equal to the selected value: with string
  identifiers and a list that is not empty, that is a job of the list with the selected
  identifier, and the line reads \<open>Selected: <title>\<close>, followed by \<open>@ <company>\<close>
  when the job has a company.
\<close>

theorem ensureSearchJobs_keeps_selection:
  assumes "fetchJobs w = (Inr js, w1)"
  shows "fst (ensureSearchJobs w) = Inr ()
   \<and> options (searchSelect (snd (ensureSearchJobs w))) = map option_of js
   \<and> (select_value (searchSelect w) \<noteq> []
        \<and> select_value (searchSelect w) \<in> set (map (\<lambda>j. js_String (j_id j)) js)
      \<longrightarrow> select_value (searchSelect (snd (ensureSearchJobs w))) = select_value (searchSelect w))
   \<and> (\<not> (select_value (searchSelect w) \<noteq> []
           \<and> select_value (searchSelect w) \<in> set (map (\<lambda>j. js_String (j_id j)) js))
      \<longrightarrow> (case js of
             [] \<Rightarrow> select_value (searchSelect (snd (ensureSearchJobs w))) = []
                   \<and> searchInfo (snd (ensureSearchJobs w)) = ''No job selected.''
           | j # js' \<Rightarrow>
               selectedIndex (searchSelect (snd (ensureSearchJobs w))) = Some 0
               \<and> select_value (searchSelect (snd (ensureSearchJobs w))) = js_String (j_id j)))
   \<and> snd (ensureSearchJobs w)
       = updateSearchInfo
           (find (\<lambda>j. j_id j = String (select_value (searchSelect (snd (ensureSearchJobs w))))) js)
           (w1\<lparr>searchSelect := rebuild_select js (searchSelect w)\<rparr>)
   \<and> (js \<noteq> [] \<and> (\<forall>j\<in>set js. \<exists>s. j_id j = String s)
      \<longrightarrow> (\<exists>j\<in>set js.
             j_id j = String (select_value (searchSelect (snd (ensureSearchJobs w))))
             \<and> searchInfo (snd (ensureSearchJobs w))
                 = ''Selected: '' @ js_String (job_title j)
                   @ (if truthy (company_name j) then '' @ '' @ js_String (company_name j)
                      else [])))"
proof -
  let ?curr = "select_value (searchSelect w)"
  let ?ids = "map (\<lambda>j. js_String (j_id j)) js"
  let ?R = "rebuild_select js (searchSelect w)"
  let ?w2 = "w1\<lparr>searchSelect := ?R\<rparr>"
  let ?v = "select_value ?R"
  have same: "searchSelect w1 = searchSelect w"
    using fetchJobs_frame [OF assms] by simp
  have run: "ensureSearchJobs w = (Inr (), updateSearchInfo (find (\<lambda>j. j_id j = String ?v) js) ?w2)"
    using assms same by (simp add: ensureSearchJobs_def Let_def)
  have sel: "searchSelect (snd (ensureSearchJobs w)) = ?R"
    by (simp add: run updateSearchInfo_def split: option.split)
  have ids: "fst ` set (map option_of js) = set ?ids"
    by (auto simp: option_of_def image_iff)
  have kept: "?v = ?curr" if "?curr \<noteq> []" and "?curr \<in> set ?ids"
  proof -
    from that(2) ids have "?curr \<in> fst ` set (map option_of js)" by simp
    from index_of_Some [OF this] obtain i where
      "index_of ?curr (map option_of js) = Some i" "i < length (map option_of js)"
      "fst (map option_of js ! i) = ?curr"
      by blast
    with that ids show ?thesis
      by (simp add: rebuild_select_eq select_value_def [of "\<lparr>options = _, selectedIndex = _, multiple = _\<rparr>"])
  qed
  have first: "selectedIndex ?R = Some 0 \<and> ?v = js_String (j_id j)"
    if "\<not> (?curr \<noteq> [] \<and> ?curr \<in> set ?ids)" and "js = j # js'" for j js'
    using that ids
    by (auto simp: rebuild_select_eq select_value_def [of "\<lparr>options = _, selectedIndex = _, multiple = _\<rparr>"]
        option_of_def)
  have none: "?v = [] \<and> searchInfo (snd (ensureSearchJobs w)) = ''No job selected.''" if "js = []"
    using that
    by (simp add: run rebuild_select_eq updateSearchInfo_def
        select_value_def [of "\<lparr>options = _, selectedIndex = _, multiple = _\<rparr>"])
  have info: "\<exists>j\<in>set js. j_id j = String ?v
      \<and> searchInfo (snd (ensureSearchJobs w))
          = ''Selected: '' @ js_String (job_title j)
            @ (if truthy (company_name j) then '' @ '' @ js_String (company_name j) else [])"
    if ne: "js \<noteq> []" and str: "\<forall>j\<in>set js. \<exists>s. j_id j = String s"
  proof -
    have "\<exists>j\<in>set js. js_String (j_id j) = ?v"
    proof (cases "?curr \<noteq> [] \<and> ?curr \<in> set ?ids")
      case True
      with kept show ?thesis by auto
    next
      case False
      from ne obtain j js' where "js = j # js'" by (cases js) auto
      with first [OF False this] show ?thesis by auto
    qed
    then obtain j where "j \<in> set js" "js_String (j_id j) = ?v" by blast
    from find_string_id [OF this str] obtain j' where
      "j' \<in> set js" "find (\<lambda>j. j_id j = String ?v) js = Some j'" "j_id j' = String ?v"
      by blast
    then show ?thesis
      by (intro bexI [of _ j']) (simp_all add: run updateSearchInfo_def)
  qed
  have c4: "\<not> (?curr \<noteq> [] \<and> ?curr \<in> set ?ids)
      \<longrightarrow> (case js of
             [] \<Rightarrow> ?v = [] \<and> searchInfo (snd (ensureSearchJobs w)) = ''No job selected.''
           | j # js' \<Rightarrow> selectedIndex ?R = Some 0 \<and> ?v = js_String (j_id j))"
    using none first by (cases js) auto
  show ?thesis
    unfolding sel
    using run kept c4 info
    by (simp add: rebuilt_options)
qed

text \<open>
  C8 at a selector that held \<open>j0\<close> and \<open>j2\<close> while the server now lists \<open>j1\<close>
  and \<open>j2\<close>: a selected \<open>j2\<close> stays selected, a selected \<open>j0\<close> gives way to the
  first entry \<open>j1\<close>.
\<close>

theorem ensureSearchJobs_keeps_selection_witness:
  "fst (fetchJobs (search_page ''j2'')) = Inr [demo_job, clerk_job]
   \<and> select_value (searchSelect (search_page ''j2'')) = ''j2''
   \<and> select_value (searchSelect (snd (ensureSearchJobs (search_page ''j2'')))) = ''j2''
   \<and> searchInfo (snd (ensureSearchJobs (search_page ''j2''))) = ''Selected: Clerk''
   \<and> select_value (searchSelect (search_page ''j0'')) = ''j0''
   \<and> select_value (searchSelect (snd (ensureSearchJobs (search_page ''j0'')))) = ''j1''
   \<and> searchInfo (snd (ensureSearchJobs (search_page ''j0''))) = ''Selected: Engineer @ Acme''"
proof -
  have f: "fetchJobs (search_page v) =
      (Inr [demo_job, clerk_job],
       (search_page v)\<lparr>requests := [\<lparr>meth = ''GET'', url = API_BASE @ ''/jobs'', sent = []\<rparr>]\<rparr>)" for v
    by (simp add: fetchJobs_def fetch_def search_page_def no_properties_def)
  have s: "select_value (searchSelect (search_page ''j2'')) = ''j2''"
    "select_value (searchSelect (search_page ''j0'')) = ''j0''"
    by (simp_all add: search_page_def set_select_value_def select_value_def)
  have ids: "map (\<lambda>j. js_String (j_id j)) [demo_job, clerk_job] = [''j1'', ''j2'']"
    by (simp add: demo_job_def clerk_job_def)
  note T2 = ensureSearchJobs_keeps_selection [OF f [of "''j2''"]]
  note T0 = ensureSearchJobs_keeps_selection [OF f [of "''j0''"]]
  from T2 have k: "select_value (searchSelect (snd (ensureSearchJobs (search_page ''j2'')))) = ''j2''"
    unfolding ids s by simp
  from T0 have d: "select_value (searchSelect (snd (ensureSearchJobs (search_page ''j0'')))) = ''j1''"
    unfolding ids s by (simp add: demo_job_def)
  from T2 have "snd (ensureSearchJobs (search_page ''j2''))
       = updateSearchInfo
           (find (\<lambda>j. j_id j = String ''j2'') [demo_job, clerk_job])
           (((search_page ''j2'')\<lparr>requests := [\<lparr>meth = ''GET'', url = API_BASE @ ''/jobs'', sent = []\<rparr>]\<rparr>)
              \<lparr>searchSelect := rebuild_select [demo_job, clerk_job] (searchSelect (search_page ''j2''))\<rparr>)"
    unfolding k by blast
  then have ik: "searchInfo (snd (ensureSearchJobs (search_page ''j2''))) = ''Selected: Clerk''"
    by (simp add: updateSearchInfo_def demo_job_def clerk_job_def)
  from T0 have "snd (ensureSearchJobs (search_page ''j0''))
       = updateSearchInfo
           (find (\<lambda>j. j_id j = String ''j1'') [demo_job, clerk_job])
           (((search_page ''j0'')\<lparr>requests := [\<lparr>meth = ''GET'', url = API_BASE @ ''/jobs'', sent = []\<rparr>]\<rparr>)
              \<lparr>searchSelect := rebuild_select [demo_job, clerk_job] (searchSelect (search_page ''j0''))\<rparr>)"
    unfolding d by blast
  then have id: "searchInfo (snd (ensureSearchJobs (search_page ''j0''))) = ''Selected: Engineer @ Acme''"
    by (simp add: updateSearchInfo_def demo_job_def clerk_job_def)
  from f [of "''j2''"] s k ik d id show ?thesis
    by (intro conjI) simp_all
qed

section \<open>Properties of saving a job\<close>

lemma failed_save:
  assumes "view u = Some v" and "\<not> disabled (titleInput v)"
    and "failed (server w (length (requests w)))"
  shows "btnEdit_click u w =
           (u\<lparr>view := Some (v\<lparr>titleInput := set_disabled True (titleInput v),
                              companyInput := set_disabled True (companyInput v),
                              desc := set_disabled True (desc v),
                              btnEdit := ''Edit''\<rparr>)\<rparr>,
            w\<lparr>requests := requests w @
                  [\<lparr>meth = ''PATCH'', url = API_BASE @ ''/jobs/'' @ js_String (j_id (job u)),
                    sent = [(''job_title'', input_value (titleInput v)),
                            (''company_name'', input_value (companyInput v)),
                            (''job_description'', input_value (desc v))]\<rparr>],
              alerts := alerts w @ [''Failed to save job'']\<rparr>)"
  using assms
  by (cases "server w (length (requests w))")
     (simp_all add: btnEdit_click_def Let_def failed_def fetch_def alert_def set_disabled_def)

text \<open>
  C6, as stated, fails in one part: the fields do not stay enabled. The listener sets
  \<open>disabled\<close> on the three fields before it sends the request, and nothing sets it
  back. At the sample card in edit mode, with a server that answers 500, the alert is
  raised and the three fields are disabled, the button reading \<open>Edit\<close>.
\<close>

theorem failed_save_disables_fields_counterexample:
  "view editing_job = Some editing_view
   \<and> \<not> disabled (titleInput editing_view)
   \<and> server failing_io 0 = Response False Invalid_json
   \<and> alerts (snd (btnEdit_click editing_job failing_io)) = [''Failed to save job'']
   \<and> map_option (disabled \<circ> titleInput) (view (fst (btnEdit_click editing_job failing_io))) = Some True
   \<and> map_option (disabled \<circ> companyInput) (view (fst (btnEdit_click editing_job failing_io))) = Some True
   \<and> map_option (disabled \<circ> desc) (view (fst (btnEdit_click editing_job failing_io))) = Some True
   \<and> map_option btnEdit (view (fst (btnEdit_click editing_job failing_io))) = Some ''Edit''"
  by (simp add: editing_job_def editing_view_def failing_io_def btnEdit_click_def Let_def
      fetch_def alert_def set_disabled_def)

text \<open>
  C6, amended. When the card is in edit mode and the PATCH request fails (\<open>fetch\<close>
  throws or the response is not \<open>ok\<close>), the click on Save raises the alert
  \<open>Failed to save job\<close>, leaves the job object and the header's title and subtitle as
  they were, and leaves the three fields disabled, as the listener set them before the
  request, with the text the user typed still in them and the button reading \<open>Edit\<close>.
  One request has been sent.
\<close>

theorem failed_save_leaves_job_and_header:
  assumes "view u = Some v" and "\<not> disabled (titleInput v)"
    and "failed (server w (length (requests w)))"
  shows "alerts (snd (btnEdit_click u w)) = alerts w @ [''Failed to save job'']
       \<and> job (fst (btnEdit_click u w)) = job u
       \<and> view (fst (btnEdit_click u w))
           = Some (v\<lparr>titleInput := \<lparr>input_value = input_value (titleInput v), disabled = True\<rparr>,
                     companyInput := \<lparr>input_value = input_value (companyInput v), disabled = True\<rparr>,
                     desc := \<lparr>input_value = input_value (desc v), disabled = True\<rparr>,
                     btnEdit := ''Edit''\<rparr>)
       \<and> map_option card_title (view (fst (btnEdit_click u w))) = Some (card_title v)
       \<and> map_option card_subtitle (view (fst (btnEdit_click u w))) = Some (card_subtitle v)
       \<and> length (requests (snd (btnEdit_click u w))) = Suc (length (requests w))"
  by (simp add: failed_save [OF assms] set_disabled_def)

text \<open>
  C6, amended, at the sample card.
\<close>

theorem failed_save_leaves_job_and_header_witness:
  "view editing_job = Some editing_view
   \<and> \<not> disabled (titleInput editing_view)
   \<and> failed (server failing_io (length (requests failing_io)))
   \<and> alerts (snd (btnEdit_click editing_job failing_io)) = [''Failed to save job'']
   \<and> job (fst (btnEdit_click editing_job failing_io)) = demo_job
   \<and> map_option card_title (view (fst (btnEdit_click editing_job failing_io))) = Some ''Engineer''
   \<and> map_option card_subtitle (view (fst (btnEdit_click editing_job failing_io))) = Some ''Acme''
   \<and> map_option (input_value \<circ> titleInput) (view (fst (btnEdit_click editing_job failing_io)))
       = Some ''Senior Engineer''
   \<and> length (requests (snd (btnEdit_click editing_job failing_io))) = 1"
proof -
  have v: "view editing_job = Some editing_view"
    by (simp add: editing_job_def)
  have d: "\<not> disabled (titleInput editing_view)"
    by (simp add: editing_view_def)
  have f: "failed (server failing_io (length (requests failing_io)))"
    by (simp add: failing_io_def failed_def)
  from failed_save_leaves_job_and_header [OF v d f] v d f show ?thesis
    by (simp add: editing_job_def editing_view_def failing_io_def)
qed

section \<open>Properties of failure handling\<close>

lemma fetchJobs_network_error:
  "server w (length (requests w)) = Network_error \<Longrightarrow>
     fetchJobs w = (Inl TypeError,
       w\<lparr>requests := requests w @ [\<lparr>meth = ''GET'', url = API_BASE @ ''/jobs'', sent = []\<rparr>]\<rparr>)"
  by (simp add: fetchJobs_def fetch_def)

lemma fetchCandidates_network_error:
  "server w (length (requests w)) = Network_error \<Longrightarrow>
     fetchCandidates w = (Inl TypeError,
       w\<lparr>requests := requests w @ [\<lparr>meth = ''GET'', url = API_BASE @ ''/candidates'', sent = []\<rparr>]\<rparr>)"
  by (simp add: fetchCandidates_def fetch_def)















lemma escapeHtml_Ada: "escapeHtml (String ''Ada'') = ''Ada''"
  by (simp add: escapeHtml_def js_or_def special_def)

lemma demo_selector:
  "root_query demo_browser (cv_selector (String ''c1'')) = Element True"
  by (simp add: demo_browser_def cv_selector_def)

lemma quoted_selector:
  "root_query demo_browser (cv_selector (c_id quoted_candidate)) = Invalid_selector"
  by (simp add: demo_browser_def cv_selector_def quoted_candidate_def)






section \<open>Properties of the CV viewer\<close>

lemma fetch_cv_effect:
  "server (env (fetch_cv w)) = server (env w) \<and> alerts (env (fetch_cv w)) = alerts (env w)
   \<and> cand (ui (fetch_cv w)) = cand (ui w)
   \<and> nested (ui (fetch_cv w)) = nested (ui w)
   \<and> nested_calls (ui (fetch_cv w)) = nested_calls (ui w)
   \<and> unhandled (ui (fetch_cv w)) = unhandled (ui w)
   \<and> requests (env (fetch_cv w)) =
       requests (env w) @ [\<lparr>meth = ''GET'',
                      url = API_BASE @ ''/documents/'' @ js_String (candidate_cv_id (cand (ui w))),
                      sent = []\<rparr>]
   \<and> has_text (fetch_cv w) = (\<not> blank_document (next_reply w))
   \<and> (blank_document (next_reply w) \<longrightarrow> pre (ui (fetch_cv w)) = Some [])"
  by (simp add: fetch_cv_def fetch_def has_text_def blank_document_def next_reply_def set_pre_def
      split: response.split json.split)

lemma expand_effect_refl: "expand_effect w w"
  by (simp add: expand_effect_def)

lemma cand_onExpand_effect: "expand_effect w (snd (cand_onExpand b i c w))"
proof (cases "root_query b (cv_selector (c_id (cand (ui w))))")
  case Invalid_selector
  then show ?thesis
    by (simp add: expand_effect_def cand_onExpand_def has_text_def)
next
  case No_element
  with fetch_cv_effect [of w] show ?thesis
    by (auto simp: expand_effect_def cand_onExpand_def has_text_def split: option.split)
next
  case (Element inside)
  with fetch_cv_effect [of w] show ?thesis
    by (auto simp: expand_effect_def cand_onExpand_def has_text_def split: option.split)
qed

lemma cv_onExpand_effect: "expand_effect w (snd (cv_onExpand i c w))"
  using fetch_cv_effect [of w]
  by (auto simp: expand_effect_def cv_onExpand_def has_text_def set_pre_def split: option.split)

lemma cand_toggle_effect: "expand_effect (page s) (page (onToggle (cand_config b cid) s))"
  using cand_onExpand_effect [of "page s" b cid "toggleExpanded (node s) True"]
  by (simp add: onToggle_def Let_def doExpand_def doCollapse_def page_call_hook cand_config_def
      expand_effect_refl)

lemma cv_toggle_effect: "expand_effect (page s) (page (onToggle (cv_config cid) s))"
  using cv_onExpand_effect [of "page s" "String (js_String cid @ ''-cv'')" "toggleExpanded (node s) True"]
  by (simp add: onToggle_def Let_def doExpand_def doCollapse_def page_call_hook cv_config_def
      expand_effect_refl)

lemma header_listener_effect:
  assumes "\<And>s. expand_effect (page s) (page (onToggle cfg s))"
  shows "expand_effect (page s) (page (header_listener cfg e s))"
  using assms [of s] by (cases e) (simp_all add: expand_effect_refl)

lemma expand_effect_nested:
  "expand_effect w w' \<Longrightarrow> expand_effect w (w'\<lparr>ui := (ui w')\<lparr>nested := n, nested_calls := cs\<rparr>\<rparr>)"
  by (simp add: expand_effect_def has_text_def)

lemma cand_listener_effect: "expand_effect (page s) (page (cand_listener b cid e s))"
proof (cases e)
  case (Card_header he)
  then show ?thesis
    by (simp add: header_listener_effect [of "cand_config b cid", OF cand_toggle_effect])
next
  case (Cv_header he)
  show ?thesis
  proof (cases "nested (ui (page s))")
    case None
    with Cv_header show ?thesis
      by (simp add: cv_header_listener_def expand_effect_refl)
  next
    case (Some n)
    let ?s1 = "\<lparr>node = n, didInit = True, page = page s, calls = nested_calls (ui (page s))\<rparr>"
    have "expand_effect (page ?s1) (page (header_listener (cv_config cid) he ?s1))"
      by (rule header_listener_effect [of "cv_config cid", OF cv_toggle_effect])
    then have "expand_effect (page s) (page (header_listener (cv_config cid) he ?s1))"
      by simp
    from expand_effect_nested [OF this] Cv_header Some show ?thesis
      by (simp add: cv_header_listener_def Let_def)
  qed
qed

lemma one_fetch_step:
  assumes "\<not> blank_document (next_reply w0)"
    and "one_fetch w0 w" and "expand_effect w w'"
  shows "one_fetch w0 w'"
  using assms by (auto simp: one_fetch_def expand_effect_def next_reply_def)

lemma one_fetch_events:
  assumes "\<not> blank_document (next_reply w0)"
  shows "one_fetch w0 (page s) \<Longrightarrow> one_fetch w0 (page (cand_events b cid es s))"
proof (induction es arbitrary: s)
  case Nil
  then show ?case by simp
next
  case (Cons e es)
  from one_fetch_step [OF assms Cons.prems cand_listener_effect [of s b cid e]]
  have "one_fetch w0 (page (cand_listener b cid e s))" .
  from Cons.IH [OF this] show ?case by simp
qed

lemma cv_expand_empty_region:
  assumes "pre (ui w) = Some []" and "truthy (candidate_cv_id (cand (ui w)))"
  shows "snd (cv_onExpand i c w) = fetch_cv w"
  using assms by (simp add: cv_onExpand_def)

lemma cand_expand_empty_region:
  assumes "pre (ui w) = Some []" and "truthy (candidate_cv_id (cand (ui w)))"
  shows "snd (cand_onExpand b i c w) =
           (case root_query b (cv_selector (c_id (cand (ui w)))) of
              Invalid_selector \<Rightarrow> w\<lparr>ui := (ui w)\<lparr>unhandled := unhandled (ui w) @ [SyntaxError]\<rparr>\<rparr>
            | No_element \<Rightarrow> fetch_cv w
            | Element inside \<Rightarrow> if inside then fetch_cv w else w)"
  using assms by (simp add: cand_onExpand_def split: selected.split)

lemma expand_with_text:
  assumes "has_text w"
  shows "snd (cv_onExpand i c w) = w"
    and "env (snd (cand_onExpand b i c w)) = env w"
    and "pre (ui (snd (cand_onExpand b i c w))) = pre (ui w)"
    and "root_query b (cv_selector (c_id (cand (ui w)))) \<noteq> Invalid_selector
         \<Longrightarrow> snd (cand_onExpand b i c w) = w"
  using assms
  by (auto simp: has_text_def cand_onExpand_def cv_onExpand_def
      split: option.splits selected.splits)

lemma build_demo_candidate:
  "buildCandidateCard demo_browser demo_candidate w = Inr (built_candidate w)"
  using new_card_regions [of "String ''c1''"] new_card_regions [of "String ''c1-cv''"]
  by (simp add: buildCandidateCard_def makeCard_def Let_def cand_config_def cv_config_def
      call_hook_def cand_onInit_def cv_onInit_def default_false_def demo_candidate_def
      built_candidate_def toggleExpanded_new_card demo_browser_def escapeHtml_Ada js_or_def
      set_pre_def)

lemmas run_expand =
  expand_twice_def built_candidate_def demo_candidate_def
  onToggle_def doExpand_def doCollapse_def call_hook_def cand_config_def cand_onExpand_def
  demo_selector fetch_cv_def fetch_def textContent_of_def API_BASE_def Let_def set_pre_def
  toggleExpanded_def classList_add_def classList_remove_def classList_contains_def
  new_card_def setAttribute_def set_className_def createElement_def

lemma expand_twice_blank:
  "map url (requests (env (page (cand_events demo_browser (String ''c1'') expand_twice
                                   (built_candidate blank_io)))))
   = [''http://localhost:8000/documents/d1'', ''http://localhost:8000/documents/d1'']"
  "map meth (requests (env (page (cand_events demo_browser (String ''c1'') expand_twice
                                    (built_candidate blank_io)))))
   = [''GET'', ''GET'']"
  by (simp_all add: run_expand blank_io_def no_properties_def)

text \<open>
  C5, as stated, fails: the test for a fetched document is that the region has text.
  With a server whose document has the empty string as content, the card built for the
  sample candidate is expanded, collapsed and expanded again, and two requests
  \<open>GET /documents/d1\<close> are issued.
\<close>

theorem blank_document_fetched_twice_counterexample:
  "buildCandidateCard demo_browser demo_candidate blank_io = Inr (built_candidate blank_io)
   \<and> requests (env (page (built_candidate blank_io))) = []
   \<and> map meth (requests (env (page (cand_events demo_browser (String ''c1'') expand_twice
                                       (built_candidate blank_io)))))
       = [''GET'', ''GET'']
   \<and> map url (requests (env (page (cand_events demo_browser (String ''c1'') expand_twice
                                      (built_candidate blank_io)))))
       = [''http://localhost:8000/documents/d1'', ''http://localhost:8000/documents/d1'']"
proof -
  have "requests (env (page (built_candidate blank_io))) = []"
    by (simp add: built_candidate_def blank_io_def)
  then show ?thesis
    using build_demo_candidate [of blank_io] expand_twice_blank by (intro conjI)
qed

text \<open>
  C5, amended. Each handler running to its end before the next event: an expand hook
  of either card sends nothing and leaves the region as it was when the region already
  has text, and sends at most one request otherwise. With an empty region and a CV
  identifier, the hook of the CV card sends exactly one request; the hook of the
  candidate card sends exactly one when its query for the CV card, made with a selector
  built from the candidate's identifier, leads to the region, and none when it does not
  (the region stays empty; when the selector is not valid, as for an identifier with a
  double quote, the hook's promise rejects with the SyntaxError, which nothing
  handles). After a request the region has text unless the reply was a blank document
  (a failed request, an unreadable body and a \<open>null\<close> body all leave the text
  \<open>(No CV)\<close>). So over any sequence of events on the two headers at most one request
  is sent, provided the reply to it is not a blank document; after a blank document the
  region is still empty and the next expand sends the request again.
\<close>

theorem cv_fetched_once_unless_blank:
  "(has_text w \<longrightarrow> snd (cv_onExpand i c w) = w
                  \<and> env (snd (cand_onExpand b i c w)) = env w
                  \<and> pre (ui (snd (cand_onExpand b i c w))) = pre (ui w))
   \<and> (pre (ui w) = Some [] \<and> truthy (candidate_cv_id (cand (ui w)))
      \<longrightarrow> length (requests (env (snd (cv_onExpand i c w)))) = Suc (length (requests (env w)))
          \<and> (if blank_document (next_reply w)
              then pre (ui (snd (cv_onExpand i c w))) = Some []
              else has_text (snd (cv_onExpand i c w)))
          \<and> (if reaches_region (root_query b (cv_selector (c_id (cand (ui w)))))
              then length (requests (env (snd (cand_onExpand b i c w))))
                     = Suc (length (requests (env w)))
                   \<and> (if blank_document (next_reply w)
                       then pre (ui (snd (cand_onExpand b i c w))) = Some []
                       else has_text (snd (cand_onExpand b i c w)))
              else requests (env (snd (cand_onExpand b i c w))) = requests (env w)
                   \<and> pre (ui (snd (cand_onExpand b i c w))) = Some []
                   \<and> unhandled (ui (snd (cand_onExpand b i c w)))
                       = unhandled (ui w)
                         @ (if root_query b (cv_selector (c_id (cand (ui w)))) = Invalid_selector
                            then [SyntaxError] else [])))
   \<and> length (requests (env (snd (cand_onExpand b i c w)))) \<le> Suc (length (requests (env w)))
   \<and> length (requests (env (snd (cv_onExpand i c w)))) \<le> Suc (length (requests (env w)))
   \<and> (\<not> blank_document (next_reply (page s))
      \<longrightarrow> (\<forall>es. length (requests (env (page (cand_events b cid es s))))
                 \<le> Suc (length (requests (env (page s))))))"
proof -
  have 1: "snd (cv_onExpand i c w) = w
                  \<and> env (snd (cand_onExpand b i c w)) = env w
                  \<and> pre (ui (snd (cand_onExpand b i c w))) = pre (ui w)" if "has_text w"
    using expand_with_text(1-3) [OF that] by blast
  have 2: "length (requests (env (snd (cand_onExpand b i c w)))) \<le> Suc (length (requests (env w)))"
    using cand_onExpand_effect [of w b i c] by (auto simp: expand_effect_def)
  have 3: "length (requests (env (snd (cv_onExpand i c w)))) \<le> Suc (length (requests (env w)))"
    using cv_onExpand_effect [of w i c] by (auto simp: expand_effect_def)
  have 4: "length (requests (env (page (cand_events b cid es s))))
             \<le> Suc (length (requests (env (page s))))"
    if "\<not> blank_document (next_reply (page s))" for es
    using one_fetch_events [OF that, of s b cid es]
    by (auto simp: one_fetch_def)
  have 5: "length (requests (env (snd (cv_onExpand i c w)))) = Suc (length (requests (env w)))
          \<and> (if blank_document (next_reply w)
              then pre (ui (snd (cv_onExpand i c w))) = Some []
              else has_text (snd (cv_onExpand i c w)))"
    if "pre (ui w) = Some []" "truthy (candidate_cv_id (cand (ui w)))"
    using fetch_cv_effect [of w] by (simp add: cv_expand_empty_region [OF that])
  have 6: "(if reaches_region (root_query b (cv_selector (c_id (cand (ui w)))))
              then length (requests (env (snd (cand_onExpand b i c w))))
                     = Suc (length (requests (env w)))
                   \<and> (if blank_document (next_reply w)
                       then pre (ui (snd (cand_onExpand b i c w))) = Some []
                       else has_text (snd (cand_onExpand b i c w)))
              else requests (env (snd (cand_onExpand b i c w))) = requests (env w)
                   \<and> pre (ui (snd (cand_onExpand b i c w))) = Some []
                   \<and> unhandled (ui (snd (cand_onExpand b i c w)))
                       = unhandled (ui w)
                         @ (if root_query b (cv_selector (c_id (cand (ui w)))) = Invalid_selector
                            then [SyntaxError] else []))"
    if "pre (ui w) = Some []" "truthy (candidate_cv_id (cand (ui w)))"
    using fetch_cv_effect [of w] that(1)
    by (cases "root_query b (cv_selector (c_id (cand (ui w))))")
       (simp_all add: cand_expand_empty_region [OF that] reaches_region_def)
  from 1 2 3 4 5 6 show ?thesis
    by blast
qed

text \<open>
  C5, amended, at the sample candidate with a server whose document reads
  \<open>CV text\<close>: expanding twice, on either header, issues one request. At the
  candidate with a double quote in its identifier the hook of the candidate card sends
  nothing and rejects, while the hook of the CV card sends the request.
\<close>

theorem cv_fetched_once_unless_blank_witness:
  "buildCandidateCard demo_browser demo_candidate text_io = Inr (built_candidate text_io)
   \<and> \<not> blank_document (next_reply (page (built_candidate text_io)))
   \<and> length (requests (env (page (cand_events demo_browser (String ''c1'') expand_twice
                                     (built_candidate text_io)))))
       \<le> Suc (length (requests (env (page (built_candidate text_io)))))
   \<and> length (requests (env (page (cand_events demo_browser (String ''c1'')
                [Card_header Click, Cv_header (Keydown ''Enter''), Card_header Click, Cv_header Click]
                (built_candidate text_io)))))
       \<le> Suc (length (requests (env (page (built_candidate text_io)))))
   \<and> pre (ui (page (cand_events demo_browser (String ''c1'') expand_twice
                      (built_candidate text_io)))) = Some ''CV text''
   \<and> map url (requests (env (page (cand_events demo_browser (String ''c1'') expand_twice
                                      (built_candidate text_io)))))
       = [''http://localhost:8000/documents/d1'']
   \<and> pre (ui (page (built_candidate text_io))) = Some []
   \<and> truthy (candidate_cv_id (cand (ui (page (built_candidate text_io)))))
   \<and> reaches_region (root_query demo_browser
        (cv_selector (c_id (cand (ui (page (built_candidate text_io)))))))
   \<and> length (requests (env (snd (cand_onExpand demo_browser (String ''c1'') (new_card (String ''c1''))
                                   (page (built_candidate text_io)))))) = 1
   \<and> has_text (snd (cand_onExpand demo_browser (String ''c1'') (new_card (String ''c1''))
                      (page (built_candidate text_io))))
   \<and> snd (cv_onExpand (String ''c1-cv'') (new_card (String ''c1-cv''))
            (snd (cand_onExpand demo_browser (String ''c1'') (new_card (String ''c1''))
                   (page (built_candidate text_io)))))
       = snd (cand_onExpand demo_browser (String ''c1'') (new_card (String ''c1''))
                (page (built_candidate text_io)))
   \<and> pre (ui quoted_page) = Some []
   \<and> truthy (candidate_cv_id (cand (ui quoted_page)))
   \<and> \<not> reaches_region (root_query demo_browser (cv_selector (c_id (cand (ui quoted_page)))))
   \<and> requests (env (snd (cand_onExpand demo_browser (c_id quoted_candidate)
                            (new_card (c_id quoted_candidate)) quoted_page))) = []
   \<and> pre (ui (snd (cand_onExpand demo_browser (c_id quoted_candidate)
                      (new_card (c_id quoted_candidate)) quoted_page))) = Some []
   \<and> unhandled (ui (snd (cand_onExpand demo_browser (c_id quoted_candidate)
                            (new_card (c_id quoted_candidate)) quoted_page))) = [SyntaxError]
   \<and> length (requests (env (snd (cv_onExpand (String ''c1-cv'') (new_card (String ''c1-cv''))
                                   quoted_page)))) = 1"
proof -
  let ?w = "page (built_candidate text_io)"
  let ?w1 = "snd (cand_onExpand demo_browser (String ''c1'') (new_card (String ''c1'')) ?w)"
  let ?q1 = "snd (cand_onExpand demo_browser (c_id quoted_candidate)
                    (new_card (c_id quoted_candidate)) quoted_page)"
  have nb: "\<not> blank_document (next_reply ?w)" "\<not> blank_document (next_reply quoted_page)"
    by (simp_all add: built_candidate_def quoted_page_def text_io_def blank_document_def
        textContent_of_def next_reply_def no_properties_def)
  note T = cv_fetched_once_unless_blank
    [where s = "built_candidate text_io" and cid = "String ''c1''" and b = demo_browser]
  from T nb have le: "length (requests (env (page (cand_events demo_browser (String ''c1'') es
                                                       (built_candidate text_io)))))
       \<le> Suc (length (requests (env (page (built_candidate text_io)))))" for es
    by blast
  have ev: "pre (ui (page (cand_events demo_browser (String ''c1'') expand_twice
                      (built_candidate text_io)))) = Some ''CV text''"
    "map url (requests (env (page (cand_events demo_browser (String ''c1'') expand_twice
                                      (built_candidate text_io)))))
       = [''http://localhost:8000/documents/d1'']"
    by (simp_all add: run_expand text_io_def no_properties_def)
  have em: "pre (ui ?w) = Some []" "truthy (candidate_cv_id (cand (ui ?w)))"
    "requests (env ?w) = []"
    by (simp_all add: built_candidate_def demo_candidate_def text_io_def)
  have rr: "reaches_region (root_query demo_browser (cv_selector (c_id (cand (ui ?w)))))"
    by (simp add: built_candidate_def demo_candidate_def demo_selector reaches_region_def)
  from cv_fetched_once_unless_blank
         [where w = ?w and i = "String ''c1''" and c = "new_card (String ''c1'')"
            and b = demo_browser and s = "built_candidate text_io" and cid = "String ''c1''"]
       em nb rr
  have ht: "length (requests (env ?w1)) = 1" "has_text ?w1"
    by simp_all
  from cv_fetched_once_unless_blank
         [where w = ?w1 and i = "String ''c1-cv''" and c = "new_card (String ''c1-cv'')"
            and b = demo_browser and s = "built_candidate text_io" and cid = "String ''c1''"]
       ht(2)
  have same: "snd (cv_onExpand (String ''c1-cv'') (new_card (String ''c1-cv'')) ?w1) = ?w1"
    by blast
  have qm: "pre (ui quoted_page) = Some []" "truthy (candidate_cv_id (cand (ui quoted_page)))"
    "requests (env quoted_page) = []" "unhandled (ui quoted_page) = []"
    "cand (ui quoted_page) = quoted_candidate"
    by (simp_all add: quoted_page_def quoted_candidate_def text_io_def)
  have nr: "\<not> reaches_region (root_query demo_browser (cv_selector (c_id (cand (ui quoted_page)))))"
    by (simp add: qm quoted_selector reaches_region_def)
  from cv_fetched_once_unless_blank
         [where w = quoted_page and i = "c_id quoted_candidate"
            and c = "new_card (c_id quoted_candidate)" and b = demo_browser
            and s = "built_candidate text_io" and cid = "String ''c1''"] qm(1,2) nr
  have q: "requests (env ?q1) = []" "pre (ui ?q1) = Some []" "unhandled (ui ?q1) = [SyntaxError]"
    by (simp_all add: qm quoted_selector)
  from cv_fetched_once_unless_blank
         [where w = quoted_page and i = "String ''c1-cv''" and c = "new_card (String ''c1-cv'')"
            and b = demo_browser and s = "built_candidate text_io" and cid = "String ''c1''"]
       qm(1,2)
  have q2: "length (requests (env (snd (cv_onExpand (String ''c1-cv'') (new_card (String ''c1-cv''))
                                   quoted_page)))) = 1"
    by (simp add: qm)
  from build_demo_candidate [of text_io] nb(1) le [of expand_twice]
    le [of "[Card_header Click, Cv_header (Keydown ''Enter''), Card_header Click, Cv_header Click]"]
    ev em(1,2) rr ht same qm(1,2) nr q q2
  show ?thesis
    by (intro conjI)
qed

end
